theory Spec2Isabelle
  imports Main "HOL-Library.Word"
begin

unbundle bit_operations_syntax

section \<open>Machine types and errors\<close>

text \<open>
  The embedding follows \<^verbatim>\<open>canvas_base.c\<close>. C's fixed-width integers are words;
  pointers into a buffer are integer byte offsets from the start of that buffer, so that
  a negated stride (bottom-up bitmaps) is an ordinary negative step.
\<close>

type_synonym uint8_t = "8 word"
type_synonym uint16_t = "16 word"
type_synonym uint32_t = "32 word"
type_synonym ADDRESS = "64 word"

text \<open>
  \<^verbatim>\<open>CANVAS_ERROR\<close> and \<^verbatim>\<open>ASSERT\<close> print a message and call \<^verbatim>\<open>abort()\<close>: the call
  does not return a surface. Both are error values here, carrying the message. An access
  outside a pixel buffer owned by a surface is undefined in C; the model stops with
  \<open>MEMORY_FAULT\<close> there.
\<close>

datatype error = CANVAS_ERROR string | ASSERT string | MEMORY_FAULT

section \<open>16 bit to 32 bit colour expansion\<close>

text \<open>
  \<^verbatim>\<open>
  static inline uint32_t canvas_16bpp_to_32bpp(uint32_t color)
  {
      uint32_t ret;
      ret = ((color & 0x001f) << 3) | ((color & 0x001c) >> 2);
      ret |= ((color & 0x03e0) << 6) | ((color & 0x0380) << 1);
      ret |= ((color & 0x7c00) << 9) | ((color & 0x7000) << 4);
      return ret;
  }
  \<close>
\<close>

definition canvas_16bpp_to_32bpp :: "uint32_t \<Rightarrow> uint32_t" where
  "canvas_16bpp_to_32bpp color =
     (let ret = push_bit 3 (color AND 0x001f) OR drop_bit 2 (color AND 0x001c);
          ret = ret OR (push_bit 6 (color AND 0x03e0) OR push_bit 1 (color AND 0x0380));
          ret = ret OR (push_bit 9 (color AND 0x7c00) OR push_bit 4 (color AND 0x7000))
      in ret)"

text \<open>
  The expansion of one \<open>n\<close>-bit component as the specification words it,
  \<^verbatim>\<open>(c << (8-n)) | (c >> (2n-8))\<close>; it is compared with the code below.
\<close>

definition spec_expand_component :: "nat \<Rightarrow> uint32_t \<Rightarrow> uint32_t" where
  "spec_expand_component n c = push_bit (8 - n) c OR drop_bit (2 * n - 8) c"

section \<open>Memory and pixel buffers\<close>

text \<open>
  Caller-owned wire data (bitmap bytes, palettes) is seen through a pointer: the model takes
  the memory at that pointer as a total function from byte offsets to bytes, so that a read
  past the end of the object yields whatever the buffer holds there, as it does in C.
\<close>

type_synonym memory = "int \<Rightarrow> uint8_t"

definition memory_of :: "uint8_t list \<Rightarrow> memory" where
  "memory_of bytes = (\<lambda>i. if 0 \<le> i \<and> nat i < length bytes then bytes ! nat i else 0)"

text \<open>
  The pixel buffer of a surface is a byte list of \<open>stride * height\<close> bytes. A row loop
  works on the window of the buffer that starts at its destination pointer: \<open>peek\<close> reads
  the window, \<open>poke\<close> writes it back, \<open>in_buf\<close> is the bounds check.
\<close>

definition in_buf :: "uint8_t list \<Rightarrow> int \<Rightarrow> nat \<Rightarrow> bool" where
  "in_buf buf p n \<longleftrightarrow> 0 \<le> p \<and> nat p + n \<le> length buf"

definition peek :: "uint8_t list \<Rightarrow> int \<Rightarrow> nat \<Rightarrow> uint8_t list" where
  "peek buf p n = take n (drop (nat p) buf)"

definition poke :: "uint8_t list \<Rightarrow> int \<Rightarrow> uint8_t list \<Rightarrow> uint8_t list" where
  "poke buf p row = take (nat p) buf @ row @ drop (nat p + length row) buf"

text \<open>
  Accesses through \<^verbatim>\<open>uint16_t*\<close> and \<^verbatim>\<open>uint32_t*\<close> are little-endian, the byte order
  of the hosts the canvas is built for. \<open>load32\<close> and \<open>store32\<close> address the \<open>i\<close>-th
  32-bit pixel of a row.
\<close>

definition load16 :: "memory \<Rightarrow> int \<Rightarrow> uint16_t" where
  "load16 mem p = ucast (mem p) OR push_bit 8 (ucast (mem (p + 1)))"

definition load32 :: "uint8_t list \<Rightarrow> nat \<Rightarrow> uint32_t" where
  "load32 row i =
     ucast (row ! (4 * i)) OR push_bit 8 (ucast (row ! (4 * i + 1)))
       OR push_bit 16 (ucast (row ! (4 * i + 2))) OR push_bit 24 (ucast (row ! (4 * i + 3)))"

definition store32 :: "uint8_t list \<Rightarrow> nat \<Rightarrow> uint32_t \<Rightarrow> uint8_t list" where
  "store32 row i v =
     row[4 * i := ucast v, 4 * i + 1 := ucast (drop_bit 8 v),
         4 * i + 2 := ucast (drop_bit 16 v), 4 * i + 3 := ucast (drop_bit 24 v)]"

section \<open>Wire structures\<close>

text \<open>
  \<^verbatim>\<open>Palette {num_ents, ents[]}\<close>: \<open>ents\<close> is the memory that follows \<open>num_ents\<close>, viewed
  as \<^verbatim>\<open>uint32_t[]\<close>; an index at or beyond \<open>num_ents\<close> denotes the words after the
  palette.
\<close>

record Palette =
  num_ents :: uint32_t
  ents :: "nat \<Rightarrow> uint32_t"

text \<open>
  The protocol header that numbers the formats and flags is not part of the source file;
  the formats are the ones the specification lists (\<open>BITMAP_FMT_INVALID\<close> stands for every
  other value of the format byte), and a flags byte is the set of the flags it has set.
\<close>

datatype bitmap_format =
    BITMAP_FMT_1BIT_LE | BITMAP_FMT_1BIT_BE | BITMAP_FMT_4BIT_BE | BITMAP_FMT_8BIT
  | BITMAP_FMT_16BIT | BITMAP_FMT_24BIT | BITMAP_FMT_32BIT | BITMAP_FMT_RGBA
  | BITMAP_FMT_INVALID

datatype bitmap_flag = BITMAP_PAL_CACHE_ME | BITMAP_PAL_FROM_CACHE | BITMAP_TOP_DOWN

text \<open>
  \<^verbatim>\<open>Bitmap {format, flags, x, y, stride, palette, data}\<close>. \<open>bitmap_data\<close> is the memory at
  \<^verbatim>\<open>GET_ADDRESS(bitmap->data)\<close>.
\<close>

record Bitmap =
  bitmap_format :: bitmap_format
  bitmap_flags :: "bitmap_flag set"
  bitmap_x :: uint32_t
  bitmap_y :: uint32_t
  bitmap_stride :: uint32_t
  bitmap_palette :: ADDRESS
  bitmap_data :: memory

section \<open>Surfaces of the drawing backend\<close>

text \<open>
  The canvas uses cairo image surfaces through their accessors: status, format, width,
  height, stride, data, one user-data slot (key \<^verbatim>\<open>invers_data_type\<close>) and the reference
  count. A surface is referred to by its address, a natural number here.
  \<^verbatim>\<open>cairo_image_surface_create\<close> computes the stride from the format and the width
  (rows are padded to 4 bytes), clears the pixels, and returns a surface in an error status
  for a negative size. Sizes are taken to be small enough for the C \<^verbatim>\<open>int\<close> arithmetic on
  strides and offsets not to overflow; the model computes with unbounded integers.
\<close>

datatype cairo_format_t =
  CAIRO_FORMAT_ARGB32 | CAIRO_FORMAT_RGB24 | CAIRO_FORMAT_A8 | CAIRO_FORMAT_A1

datatype cairo_status_t = CAIRO_STATUS_SUCCESS | CAIRO_STATUS_INVALID_SIZE

type_synonym surface_ptr = nat

record cairo_surface_t =
  surface_status :: cairo_status_t
  surface_format :: cairo_format_t
  surface_width :: int
  surface_height :: int
  surface_stride :: int
  surface_data :: "uint8_t list"
  surface_user_data :: "surface_ptr option"
  surface_ref_count :: nat

fun cairo_format_bits_per_pixel :: "cairo_format_t \<Rightarrow> int" where
  "cairo_format_bits_per_pixel CAIRO_FORMAT_ARGB32 = 32"
| "cairo_format_bits_per_pixel CAIRO_FORMAT_RGB24 = 32"
| "cairo_format_bits_per_pixel CAIRO_FORMAT_A8 = 8"
| "cairo_format_bits_per_pixel CAIRO_FORMAT_A1 = 1"

definition cairo_format_stride_for_width :: "cairo_format_t \<Rightarrow> int \<Rightarrow> int" where
  "cairo_format_stride_for_width fmt width =
     ((cairo_format_bits_per_pixel fmt * width + 7) div 8 + 3) div 4 * 4"

definition cairo_image_surface_create ::
  "cairo_format_t \<Rightarrow> int \<Rightarrow> int \<Rightarrow> cairo_surface_t" where
  "cairo_image_surface_create fmt width height =
     (if width < 0 \<or> height < 0
      then \<lparr> surface_status = CAIRO_STATUS_INVALID_SIZE, surface_format = fmt,
             surface_width = 0, surface_height = 0, surface_stride = 0, surface_data = [],
             surface_user_data = None, surface_ref_count = 1 \<rparr>
      else \<lparr> surface_status = CAIRO_STATUS_SUCCESS, surface_format = fmt,
             surface_width = width, surface_height = height,
             surface_stride = cairo_format_stride_for_width fmt width,
             surface_data =
               replicate (nat (cairo_format_stride_for_width fmt width * height)) 0,
             surface_user_data = None, surface_ref_count = 1 \<rparr>)"

text \<open>
  Modelled from the spec: \<^verbatim>\<open>surface_create\<close> lives in the canvas utilities, which are not
  in the source file. It is the backend's \<^verbatim>\<open>create_surface(format, width, height,
  opaque_flag)\<close>; outside Windows it is \<^verbatim>\<open>cairo_image_surface_create\<close>.
\<close>

definition surface_create ::
  "cairo_format_t \<Rightarrow> int \<Rightarrow> int \<Rightarrow> bool \<Rightarrow> cairo_surface_t" where
  "surface_create fmt width height top_down = cairo_image_surface_create fmt width height"

text \<open>The bytes of row \<open>k\<close> of a surface that hold pixels (the padding is left out).\<close>

definition surface_row :: "cairo_surface_t \<Rightarrow> nat \<Rightarrow> uint8_t list" where
  "surface_row s k =
     peek (surface_data s) (int k * surface_stride s)
       (nat ((cairo_format_bits_per_pixel (surface_format s) * surface_width s + 7) div 8))"

section \<open>Row loops\<close>

text \<open>
  Every conversion walks the rows with the same loop,
  \<^verbatim>\<open>for (; src != end; src += src_stride, dest += dest_stride) { ... }\<close>.
  The loop stops when the stepped pointer \<^emph>\<open>equals\<close> the end pointer, so it is a partial
  function: \<open>None\<close> means that it never stops. The body gets both pointers and the
  destination buffer and may fail.
\<close>

type_synonym line_body = "int \<Rightarrow> int \<Rightarrow> uint8_t list \<Rightarrow> error + uint8_t list"

partial_function (option) for_each_line ::
  "line_body \<Rightarrow> int \<Rightarrow> int \<Rightarrow> int \<Rightarrow> int \<Rightarrow> int \<Rightarrow> uint8_t list
     \<Rightarrow> (error + uint8_t list) option" where
  "for_each_line body p end p_stride q q_stride buf =
     (if p = end then Some (Inr buf)
      else (case body p q buf of
              Inl e \<Rightarrow> Some (Inl e)
            | Inr buf' \<Rightarrow>
                for_each_line body (p + p_stride) end p_stride (q + q_stride) q_stride buf'))"

declare for_each_line.simps [code]

text \<open>
  The body of a row loop writes through a pointer that starts at \<open>dest\<close> and stays within
  \<open>n\<close> bytes of it: \<open>on_dest_line\<close> hands that window of the buffer to the row function
  and writes its result back.
\<close>

definition on_dest_line ::
  "nat \<Rightarrow> (uint8_t list \<Rightarrow> error + uint8_t list) \<Rightarrow> int \<Rightarrow> uint8_t list
     \<Rightarrow> error + uint8_t list" where
  "on_dest_line n f dest buf =
     (if in_buf buf dest n
      then (case f (peek buf dest n) of Inl e \<Rightarrow> Inl e | Inr row \<Rightarrow> Inr (poke buf dest row))
      else Inl MEMORY_FAULT)"

section \<open>Bitmap to surface conversion\<close>

text \<open>
  \<^verbatim>\<open>canvas_copy_32bpp\<close>: \<^verbatim>\<open>memcpy(dest, src, width << 2)\<close> for each row.
\<close>

definition copy_32bpp_line ::
  "memory \<Rightarrow> int \<Rightarrow> int \<Rightarrow> uint8_t list \<Rightarrow> error + uint8_t list" where
  "copy_32bpp_line mem width src drow =
     Inr (map (\<lambda>j. mem (src + int j)) [0..<nat (push_bit 2 width)])"

definition canvas_copy_32bpp ::
  "int \<Rightarrow> int \<Rightarrow> memory \<Rightarrow> int \<Rightarrow> int \<Rightarrow> int \<Rightarrow> int \<Rightarrow> uint8_t list
     \<Rightarrow> (error + uint8_t list) option" where
  "canvas_copy_32bpp dest dest_stride mem src src_stride width end buf =
     for_each_line
       (\<lambda>src dest. on_dest_line (nat (4 * width)) (copy_32bpp_line mem width src) dest)
       src end src_stride dest dest_stride buf"

text \<open>
  \<^verbatim>\<open>canvas_copy_24bpp\<close>: three bytes are copied and the fourth byte of the destination
  pixel is skipped.
  \<^verbatim>\<open>
  for (; src_line < src_line_end; ++dest_line) {
      *(dest_line++) = *(src_line++);
      *(dest_line++) = *(src_line++);
      *(dest_line++) = *(src_line++);
  }
  \<close>
\<close>

function copy_24bpp_line ::
  "memory \<Rightarrow> int \<Rightarrow> int \<Rightarrow> nat \<Rightarrow> uint8_t list \<Rightarrow> uint8_t list" where
  "copy_24bpp_line mem src_line src_line_end dest_line drow =
     (if src_line < src_line_end
      then copy_24bpp_line mem (src_line + 3) src_line_end (dest_line + 4)
             (drow[dest_line := mem src_line, dest_line + 1 := mem (src_line + 1),
                   dest_line + 2 := mem (src_line + 2)])
      else drow)"
  by pat_completeness auto
termination
  by (relation "measure (\<lambda>(mem, src_line, src_line_end, dest_line, drow).
                  nat (src_line_end - src_line))") auto

declare copy_24bpp_line.simps [simp del]

definition canvas_copy_24bpp ::
  "int \<Rightarrow> int \<Rightarrow> memory \<Rightarrow> int \<Rightarrow> int \<Rightarrow> int \<Rightarrow> int \<Rightarrow> uint8_t list
     \<Rightarrow> (error + uint8_t list) option" where
  "canvas_copy_24bpp dest dest_stride mem src src_stride width end buf =
     for_each_line
       (\<lambda>src dest. on_dest_line (nat (4 * width))
           (\<lambda>drow. Inr (copy_24bpp_line mem src (src + width * 3) 0 drow)) dest)
       src end src_stride dest dest_stride buf"

text \<open>
  \<^verbatim>\<open>canvas_copy_16bpp\<close>:
  \<^verbatim>\<open>
  for (; src_line < src_line_end; ++dest_line, src_line++) {
      *dest_line = canvas_16bpp_to_32bpp(*src_line);
  }
  \<close>
  The source pointer is a \<^verbatim>\<open>uint16_t*\<close> (two bytes a step), the destination pointer a
  \<^verbatim>\<open>uint32_t*\<close> (one pixel a step).
\<close>

function copy_16bpp_line ::
  "memory \<Rightarrow> int \<Rightarrow> int \<Rightarrow> nat \<Rightarrow> uint8_t list \<Rightarrow> uint8_t list" where
  "copy_16bpp_line mem src_line src_line_end dest_line drow =
     (if src_line < src_line_end
      then copy_16bpp_line mem (src_line + 2) src_line_end (dest_line + 1)
             (store32 drow dest_line (canvas_16bpp_to_32bpp (ucast (load16 mem src_line))))
      else drow)"
  by pat_completeness auto
termination
  by (relation "measure (\<lambda>(mem, src_line, src_line_end, dest_line, drow).
                  nat (src_line_end - src_line))") auto

declare copy_16bpp_line.simps [simp del]

definition canvas_copy_16bpp ::
  "int \<Rightarrow> int \<Rightarrow> memory \<Rightarrow> int \<Rightarrow> int \<Rightarrow> int \<Rightarrow> int \<Rightarrow> uint8_t list
     \<Rightarrow> (error + uint8_t list) option" where
  "canvas_copy_16bpp dest dest_stride mem src src_stride width end buf =
     for_each_line
       (\<lambda>src dest. on_dest_line (nat (4 * width))
           (\<lambda>drow. Inr (copy_16bpp_line mem src (src + width * 2) 0 drow)) dest)
       src end src_stride dest dest_stride buf"

text \<open>
  \<^verbatim>\<open>canvas_copy_8bpp\<close>:
  \<^verbatim>\<open>
  if (!palette) { CANVAS_ERROR("no palette"); }
  for (; src != end; src += src_stride, dest += dest_stride) {
      uint32_t *dest_line = (uint32_t*)dest;
      uint8_t *src_line = src;
      uint8_t *src_line_end = src_line + width;
      while (src_line < src_line_end) {
          ASSERT(*src_line < palette->num_ents);
          *(dest_line++) = palette->ents[*(src_line++)];
      }
  }
  \<close>
\<close>

function copy_8bpp_line ::
  "memory \<Rightarrow> Palette \<Rightarrow> int \<Rightarrow> int \<Rightarrow> nat \<Rightarrow> uint8_t list \<Rightarrow> error + uint8_t list" where
  "copy_8bpp_line mem palette src_line src_line_end dest_line drow =
     (if src_line < src_line_end
      then if unat (mem src_line) < unat (num_ents palette)
           then copy_8bpp_line mem palette (src_line + 1) src_line_end (dest_line + 1)
                  (store32 drow dest_line (ents palette (unat (mem src_line))))
           else Inl (ASSERT ''*src_line < palette->num_ents'')
      else Inr drow)"
  by pat_completeness auto
termination
  by (relation "measure (\<lambda>(mem, palette, src_line, src_line_end, dest_line, drow).
                  nat (src_line_end - src_line))") auto

declare copy_8bpp_line.simps [simp del]

definition canvas_copy_8bpp ::
  "int \<Rightarrow> int \<Rightarrow> memory \<Rightarrow> int \<Rightarrow> int \<Rightarrow> int \<Rightarrow> int \<Rightarrow> Palette option \<Rightarrow> uint8_t list
     \<Rightarrow> (error + uint8_t list) option" where
  "canvas_copy_8bpp dest dest_stride mem src src_stride width end palette buf =
     (case palette of
        None \<Rightarrow> Some (Inl (CANVAS_ERROR ''no palette''))
      | Some palette \<Rightarrow>
          for_each_line
            (\<lambda>src dest. on_dest_line (nat (4 * width))
                (copy_8bpp_line mem palette src (src + width) 0) dest)
            src end src_stride dest dest_stride buf)"

text \<open>
  \<^verbatim>\<open>canvas_copy_4bpp_be\<close>:
  \<^verbatim>\<open>
  if (!palette) { CANVAS_ERROR("no palette"); }
  for (; src != end; src += src_stride, dest += dest_stride) {
      uint32_t *dest_line = (uint32_t *)dest;
      uint8_t *now = src;
      int i;
      for (i = 0; i < (width >> 1); i++) {
          ASSERT((*now & 0x0f) < palette->num_ents);
          ASSERT(((*now >> 4) & 0x0f) < palette->num_ents);
          *(dest_line++) = palette->ents[(*now >> 4) & 0x0f];
          *(dest_line++) = palette->ents[*(now++) & 0x0f];
      }
      if (width & 1) {
          *(dest_line) = palette->ents[(*src >> 4) & 0x0f];
      }
  }
  \<close>
  The loop over the pairs returns the destination pointer it has reached; the pixel of an
  odd width is read through \<^verbatim>\<open>src\<close>, the start of the row.
\<close>

function copy_4bpp_be_pairs ::
  "memory \<Rightarrow> Palette \<Rightarrow> int \<Rightarrow> int \<Rightarrow> int \<Rightarrow> nat \<Rightarrow> uint8_t list
     \<Rightarrow> error + (nat \<times> uint8_t list)" where
  "copy_4bpp_be_pairs mem palette now i width dest_line drow =
     (if i < drop_bit 1 width
      then if \<not> unat (mem now AND 0x0f) < unat (num_ents palette)
           then Inl (ASSERT ''(*now & 0x0f) < palette->num_ents'')
           else if \<not> unat (drop_bit 4 (mem now) AND 0x0f) < unat (num_ents palette)
           then Inl (ASSERT ''((*now >> 4) & 0x0f) < palette->num_ents'')
           else copy_4bpp_be_pairs mem palette (now + 1) (i + 1) width (dest_line + 2)
                  (store32
                     (store32 drow dest_line
                        (ents palette (unat (drop_bit 4 (mem now) AND 0x0f))))
                     (dest_line + 1) (ents palette (unat (mem now AND 0x0f))))
      else Inr (dest_line, drow))"
  by pat_completeness auto
termination
  by (relation "measure (\<lambda>(mem, palette, now, i, width, dest_line, drow).
                  nat (drop_bit 1 width - i))") auto

declare copy_4bpp_be_pairs.simps [simp del]

definition copy_4bpp_be_line ::
  "memory \<Rightarrow> Palette \<Rightarrow> int \<Rightarrow> int \<Rightarrow> uint8_t list \<Rightarrow> error + uint8_t list" where
  "copy_4bpp_be_line mem palette src width drow =
     (case copy_4bpp_be_pairs mem palette src 0 width 0 drow of
        Inl e \<Rightarrow> Inl e
      | Inr (dest_line, drow) \<Rightarrow>
          if width AND 1 \<noteq> 0
          then Inr (store32 drow dest_line
                      (ents palette (unat (drop_bit 4 (mem src) AND 0x0f))))
          else Inr drow)"

definition canvas_copy_4bpp_be ::
  "int \<Rightarrow> int \<Rightarrow> memory \<Rightarrow> int \<Rightarrow> int \<Rightarrow> int \<Rightarrow> int \<Rightarrow> Palette option \<Rightarrow> uint8_t list
     \<Rightarrow> (error + uint8_t list) option" where
  "canvas_copy_4bpp_be dest dest_stride mem src src_stride width end palette buf =
     (case palette of
        None \<Rightarrow> Some (Inl (CANVAS_ERROR ''no palette''))
      | Some palette \<Rightarrow>
          for_each_line
            (\<lambda>src dest. on_dest_line (nat (4 * width))
                (copy_4bpp_be_line mem palette src width) dest)
            src end src_stride dest dest_stride buf)"

text \<open>
  \<^verbatim>\<open>
  static inline int test_bit_be(void* addr, int bit)
  {
      return !!(((uint8_t*)addr)[bit >> 3] & (0x80 >> (bit & 0x07)));
  }
  \<close>
  \<^verbatim>\<open>canvas_copy_1bpp_be\<close> reads both colours before the loop and checks neither index:
  \<^verbatim>\<open>
  if (!palette) { CANVAS_ERROR("no palette"); }
  fore_color = palette->ents[1];
  back_color = palette->ents[0];
  for (; src != end; src += src_stride, dest += dest_stride) {
      uint32_t* dest_line = (uint32_t*)dest;
      int i;
      for (i = 0; i < width; i++) {
          if (test_bit_be(src, i)) { *(dest_line++) = fore_color; }
          else { *(dest_line++) = back_color; }
      }
  }
  \<close>
\<close>

definition test_bit_be :: "memory \<Rightarrow> int \<Rightarrow> int \<Rightarrow> bool" where
  "test_bit_be mem addr bit_no =
     ((ucast (mem (addr + drop_bit 3 bit_no)) :: 32 word)
        AND drop_bit (nat (bit_no AND 0x07)) 0x80 \<noteq> 0)"

function copy_1bpp_be_line ::
  "memory \<Rightarrow> uint32_t \<Rightarrow> uint32_t \<Rightarrow> int \<Rightarrow> int \<Rightarrow> int \<Rightarrow> nat \<Rightarrow> uint8_t list
     \<Rightarrow> uint8_t list" where
  "copy_1bpp_be_line mem fore_color back_color src i width dest_line drow =
     (if i < width
      then copy_1bpp_be_line mem fore_color back_color src (i + 1) width (dest_line + 1)
             (if test_bit_be mem src i then store32 drow dest_line fore_color
              else store32 drow dest_line back_color)
      else drow)"
  by pat_completeness auto
termination
  by (relation "measure (\<lambda>(mem, fore_color, back_color, src, i, width, dest_line, drow).
                  nat (width - i))") auto

declare copy_1bpp_be_line.simps [simp del]

definition canvas_copy_1bpp_be ::
  "int \<Rightarrow> int \<Rightarrow> memory \<Rightarrow> int \<Rightarrow> int \<Rightarrow> int \<Rightarrow> int \<Rightarrow> Palette option \<Rightarrow> uint8_t list
     \<Rightarrow> (error + uint8_t list) option" where
  "canvas_copy_1bpp_be dest dest_stride mem src src_stride width end palette buf =
     (case palette of
        None \<Rightarrow> Some (Inl (CANVAS_ERROR ''no palette''))
      | Some palette \<Rightarrow>
          let fore_color = ents palette 1;
              back_color = ents palette 0
          in for_each_line
               (\<lambda>src dest. on_dest_line (nat (4 * width))
                  (\<lambda>drow. Inr (copy_1bpp_be_line mem fore_color back_color src 0 width 0 drow))
                  dest)
               src end src_stride dest dest_stride buf)"

text \<open>
  \<^verbatim>\<open>canvas_bitmap_to_surface\<close>:
  \<^verbatim>\<open>
  src_stride = bitmap->stride;
  end = src + (bitmap->y * src_stride);
  cairo_surface = surface_create((bitmap->format == BITMAP_FMT_RGBA) ?
                       CAIRO_FORMAT_ARGB32 : CAIRO_FORMAT_RGB24, bitmap->x, bitmap->y, FALSE);
  if (cairo_surface_status(cairo_surface) != CAIRO_STATUS_SUCCESS) { CANVAS_ERROR(...); }
  dest = cairo_image_surface_get_data(cairo_surface);
  dest_stride = cairo_image_surface_get_stride(cairo_surface);
  if (!(bitmap->flags & BITMAP_TOP_DOWN)) {
      ASSERT(bitmap->y > 0);
      dest += dest_stride * ((int)bitmap->y - 1);
      dest_stride = -dest_stride;
  }
  switch (bitmap->format) { ... }
  return cairo_surface;
  \<close>
  \<^verbatim>\<open>src\<close> is offset 0 of the bitmap data, \<^verbatim>\<open>dest\<close> offset 0 of the pixel buffer. The
  fields are \<^verbatim>\<open>UINT32\<close>: \<^verbatim>\<open>src_stride\<close> and the sizes passed on are their values as
  \<^verbatim>\<open>int\<close>, and \<^verbatim>\<open>bitmap->y * src_stride\<close> is an unsigned 32-bit product. The switch has
  no default: for any other format the cleared surface is returned.
\<close>

definition canvas_bitmap_to_surface ::
  "Bitmap \<Rightarrow> Palette option \<Rightarrow> (error + cairo_surface_t) option" where
  "canvas_bitmap_to_surface bitmap palette =
     (let mem = bitmap_data bitmap;
          src = 0;
          src_stride = sint (bitmap_stride bitmap);
          end = src + uint (bitmap_y bitmap * bitmap_stride bitmap);
          width = sint (bitmap_x bitmap);
          cairo_surface =
            surface_create
              (if bitmap_format bitmap = BITMAP_FMT_RGBA then CAIRO_FORMAT_ARGB32
               else CAIRO_FORMAT_RGB24)
              width (sint (bitmap_y bitmap)) False
      in if surface_status cairo_surface \<noteq> CAIRO_STATUS_SUCCESS
         then Some (Inl (CANVAS_ERROR ''create surface failed''))
         else if BITMAP_TOP_DOWN \<notin> bitmap_flags bitmap \<and> \<not> bitmap_y bitmap > 0
         then Some (Inl (ASSERT ''bitmap->y > 0''))
         else
           let buf = surface_data cairo_surface;
               dest_stride = surface_stride cairo_surface;
               dest = (if BITMAP_TOP_DOWN \<notin> bitmap_flags bitmap
                       then dest_stride * (sint (bitmap_y bitmap) - 1) else 0);
               dest_stride = (if BITMAP_TOP_DOWN \<notin> bitmap_flags bitmap
                              then - dest_stride else dest_stride)
           in map_option (map_sum id (\<lambda>buf. cairo_surface\<lparr>surface_data := buf\<rparr>))
                (case bitmap_format bitmap of
                   BITMAP_FMT_32BIT \<Rightarrow>
                     canvas_copy_32bpp dest dest_stride mem src src_stride width end buf
                 | BITMAP_FMT_RGBA \<Rightarrow>
                     canvas_copy_32bpp dest dest_stride mem src src_stride width end buf
                 | BITMAP_FMT_24BIT \<Rightarrow>
                     canvas_copy_24bpp dest dest_stride mem src src_stride width end buf
                 | BITMAP_FMT_16BIT \<Rightarrow>
                     canvas_copy_16bpp dest dest_stride mem src src_stride width end buf
                 | BITMAP_FMT_8BIT \<Rightarrow>
                     canvas_copy_8bpp dest dest_stride mem src src_stride width end
                       palette buf
                 | BITMAP_FMT_4BIT_BE \<Rightarrow>
                     canvas_copy_4bpp_be dest dest_stride mem src src_stride width end
                       palette buf
                 | BITMAP_FMT_1BIT_BE \<Rightarrow>
                     canvas_copy_1bpp_be dest dest_stride mem src src_stride width end
                       palette buf
                 | _ \<Rightarrow> Some (Inr buf)))"




section \<open>Bitmap masks\<close>

text \<open>
  \<^verbatim>\<open>
  static inline uint8_t revers_bits(uint8_t byte)
  {
      uint8_t ret = 0;
      int i;
      for (i = 0; i < 4; i++) {
          int shift = 7 - i * 2;
          ret |= (byte & (1 << i)) << shift;
          ret |= (byte & (0x80 >> i)) >> shift;
      }
      return ret;
  }
  \<close>
  The byte is promoted to \<^verbatim>\<open>int\<close> for the masks and shifts; the assignment to \<^verbatim>\<open>ret\<close>
  truncates to 8 bits.
\<close>

definition revers_bits_step :: "uint8_t \<Rightarrow> nat \<Rightarrow> uint8_t \<Rightarrow> uint8_t" where
  "revers_bits_step byte i ret =
     (let shift = 7 - i * 2;
          ret = ret OR ucast (push_bit shift ((ucast byte :: 32 word) AND push_bit i 1));
          ret = ret OR ucast (drop_bit shift ((ucast byte :: 32 word) AND drop_bit i 0x80))
      in ret)"

definition revers_bits :: "uint8_t \<Rightarrow> uint8_t" where
  "revers_bits byte = fold (revers_bits_step byte) [0, 1, 2, 3] 0"

text \<open>
  \<^verbatim>\<open>#define ALIGN(a, b) (((a) + ((b) - 1)) & ~((b) - 1))\<close>, used on \<^verbatim>\<open>int\<close> and on
  \<^verbatim>\<open>UINT32\<close> operands.
\<close>

definition ALIGN :: "'a::ring_bit_operations \<Rightarrow> 'a \<Rightarrow> 'a" where
  "ALIGN a b = (a + (b - 1)) AND NOT (b - 1)"

text \<open>
  The mask and inversion loops all have the inner loop
  \<^verbatim>\<open>while (now < end) { *(dest++) = f(*(now++)); }\<close>
  with \<open>f\<close> the complement, \<^verbatim>\<open>revers_bits\<close>, or the complement of \<^verbatim>\<open>revers_bits\<close>.
\<close>

function copy_bytes_with ::
  "(uint8_t \<Rightarrow> uint8_t) \<Rightarrow> memory \<Rightarrow> int \<Rightarrow> int \<Rightarrow> nat \<Rightarrow> uint8_t list \<Rightarrow> uint8_t list" where
  "copy_bytes_with f mem now end dest drow =
     (if now < end
      then copy_bytes_with f mem (now + 1) end (dest + 1) (drow[dest := f (mem now)])
      else drow)"
  by pat_completeness auto
termination
  by (relation "measure (\<lambda>(f, mem, now, end, dest, drow). nat (end - now))") auto

declare copy_bytes_with.simps [simp del]

text \<open>
  \<^verbatim>\<open>canvas_get_bitmap_mask\<close>, the cairo canvas variant (neither \<^verbatim>\<open>GL_CANVAS\<close> nor
  \<^verbatim>\<open>GDI_CANVAS\<close>): \<open>1BIT_LE\<close> data is copied, \<open>1BIT_BE\<close> data is bit-reversed.
  \<^verbatim>\<open>
  surface = surface_create(CAIRO_FORMAT_A1, bitmap->x, bitmap->y, TRUE);
  if (cairo_surface_status(surface) != CAIRO_STATUS_SUCCESS) { CANVAS_ERROR(...); }
  src_line = (uint8_t *)GET_ADDRESS(bitmap->data);
  src_stride = bitmap->stride;
  end_line = src_line + (bitmap->y * src_stride);
  line_size = ALIGN(bitmap->x, 8) >> 3;
  dest_stride = cairo_image_surface_get_stride(surface);
  dest_line = cairo_image_surface_get_data(surface);
  if (!(bitmap->flags & BITMAP_TOP_DOWN)) {
      ASSERT(bitmap->y > 0);
      dest_line += dest_stride * ((int)bitmap->y - 1);
      dest_stride = -dest_stride;
  }
  if (invers) {
      switch (bitmap->format) {
      case BITMAP_FMT_1BIT_LE:   ... *(dest++) = ~*(now++); ...
      case BITMAP_FMT_1BIT_BE:   ... *(dest++) = ~revers_bits(*(now++)); ...
      default: cairo_surface_destroy(surface); CANVAS_ERROR("invalid bitmap format");
      }
  } else {
      switch (bitmap->format) {
      case BITMAP_FMT_1BIT_LE:   ... memcpy(dest_line, src_line, line_size); ...
      case BITMAP_FMT_1BIT_BE:   ... *(dest++) = revers_bits(*(now++)); ...
      default: cairo_surface_destroy(surface); CANVAS_ERROR("invalid bitmap format");
      }
  }
  return surface;
  \<close>
\<close>

definition mask_line ::
  "Bitmap \<Rightarrow> bool \<Rightarrow> int \<Rightarrow> int \<Rightarrow> uint8_t list \<Rightarrow> error + uint8_t list" where
  "mask_line bitmap invers line_size src_line drow =
     (let mem = bitmap_data bitmap
      in if invers
         then (case bitmap_format bitmap of
                 BITMAP_FMT_1BIT_LE \<Rightarrow>
                   Inr (copy_bytes_with (\<lambda>b. NOT b) mem src_line (src_line + line_size) 0 drow)
               | BITMAP_FMT_1BIT_BE \<Rightarrow>
                   Inr (copy_bytes_with (\<lambda>b. NOT (revers_bits b)) mem
                          src_line (src_line + line_size) 0 drow)
               | _ \<Rightarrow> Inl (CANVAS_ERROR ''invalid bitmap format''))
         else (case bitmap_format bitmap of
                 BITMAP_FMT_1BIT_LE \<Rightarrow>
                   Inr (map (\<lambda>j. mem (src_line + int j)) [0..<nat line_size])
               | BITMAP_FMT_1BIT_BE \<Rightarrow>
                   Inr (copy_bytes_with revers_bits mem src_line (src_line + line_size) 0 drow)
               | _ \<Rightarrow> Inl (CANVAS_ERROR ''invalid bitmap format'')))"

text \<open>The byte transform of the mask loop chosen by the format and \<open>invers\<close>.\<close>

definition mask_byte :: "bitmap_format \<Rightarrow> bool \<Rightarrow> uint8_t \<Rightarrow> uint8_t" where
  "mask_byte fmt invers b =
     (if fmt = BITMAP_FMT_1BIT_BE then (if invers then NOT (revers_bits b) else revers_bits b)
      else (if invers then NOT b else b))"

definition canvas_get_bitmap_mask ::
  "Bitmap \<Rightarrow> bool \<Rightarrow> (error + cairo_surface_t) option" where
  "canvas_get_bitmap_mask bitmap invers =
     (let surface =
            surface_create CAIRO_FORMAT_A1 (sint (bitmap_x bitmap)) (sint (bitmap_y bitmap)) True
      in if surface_status surface \<noteq> CAIRO_STATUS_SUCCESS
         then Some (Inl (CANVAS_ERROR ''create surface failed''))
         else
           let src_line = 0;
               src_stride = sint (bitmap_stride bitmap);
               end_line = src_line + uint (bitmap_y bitmap * bitmap_stride bitmap);
               line_size = sint (drop_bit 3 (ALIGN (bitmap_x bitmap) 8));
               dest_stride = surface_stride surface;
               dest_line = 0
           in if BITMAP_TOP_DOWN \<notin> bitmap_flags bitmap \<and> \<not> bitmap_y bitmap > 0
              then Some (Inl (ASSERT ''bitmap->y > 0''))
              else
                let dest_line = (if BITMAP_TOP_DOWN \<notin> bitmap_flags bitmap
                                 then dest_line + dest_stride * (sint (bitmap_y bitmap) - 1)
                                 else dest_line);
                    dest_stride = (if BITMAP_TOP_DOWN \<notin> bitmap_flags bitmap
                                   then - dest_stride else dest_stride)
                in if bitmap_format bitmap \<noteq> BITMAP_FMT_1BIT_LE
                      \<and> bitmap_format bitmap \<noteq> BITMAP_FMT_1BIT_BE
                   then Some (Inl (CANVAS_ERROR ''invalid bitmap format''))
                   else map_option (map_sum id (\<lambda>buf. surface\<lparr>surface_data := buf\<rparr>))
                          (for_each_line
                             (\<lambda>src_line dest_line.
                                on_dest_line (nat line_size)
                                  (mask_line bitmap invers line_size src_line) dest_line)
                             src_line end_line src_stride dest_line dest_stride
                             (surface_data surface)))"

section \<open>Inverse surfaces\<close>

text \<open>
  The inversions read the pixels of one surface and write those of a new one. A read
  outside the pixel buffer of the source surface stops the model with \<open>MEMORY_FAULT\<close>.
  \<^verbatim>\<open>
  static inline cairo_surface_t *canvas_A1_invers(cairo_surface_t *src_surf)
  {
      int width = cairo_image_surface_get_width(src_surf);
      int height = cairo_image_surface_get_height(src_surf);
      cairo_surface_t * invers = cairo_image_surface_create(CAIRO_FORMAT_A1, width, height);
      if (cairo_surface_status(invers) == CAIRO_STATUS_SUCCESS) {
          uint8_t *src_line = cairo_image_surface_get_data(src_surf);
          int src_stride = cairo_image_surface_get_stride(src_surf);
          uint8_t *end_line = src_line + (height * src_stride);
          int line_size = ALIGN(width, 8) >> 3;
          uint8_t *dest_line = cairo_image_surface_get_data(invers);
          int dest_stride = cairo_image_surface_get_stride(invers);
          for (; src_line != end_line; src_line += src_stride, dest_line += dest_stride) {
              uint8_t *dest = dest_line;
              uint8_t *now = src_line;
              uint8_t *end = now + line_size;
              while (now < end) { *(dest++) = ~*(now++); }
          }
      }
      return invers;
  }
  \<close>
\<close>

definition A1_invers_line ::
  "uint8_t list \<Rightarrow> int \<Rightarrow> int \<Rightarrow> uint8_t list \<Rightarrow> error + uint8_t list" where
  "A1_invers_line src_data line_size src_line drow =
     (if in_buf src_data src_line (nat line_size)
      then Inr (copy_bytes_with (\<lambda>b. NOT b) (memory_of src_data)
                  src_line (src_line + line_size) 0 drow)
      else Inl MEMORY_FAULT)"

definition canvas_A1_invers :: "cairo_surface_t \<Rightarrow> (error + cairo_surface_t) option" where
  "canvas_A1_invers src_surf =
     (let width = surface_width src_surf;
          height = surface_height src_surf;
          invers = cairo_image_surface_create CAIRO_FORMAT_A1 width height
      in if surface_status invers = CAIRO_STATUS_SUCCESS
         then
           let src_line = 0;
               src_stride = surface_stride src_surf;
               end_line = src_line + height * src_stride;
               line_size = drop_bit 3 (ALIGN width 8);
               dest_line = 0;
               dest_stride = surface_stride invers
           in map_option (map_sum id (\<lambda>buf. invers\<lparr>surface_data := buf\<rparr>))
                (for_each_line
                   (\<lambda>src_line dest_line.
                      on_dest_line (nat line_size)
                        (A1_invers_line (surface_data src_surf) line_size src_line) dest_line)
                   src_line end_line src_stride dest_line dest_stride (surface_data invers))
         else Some (Inr invers))"

text \<open>
  \<^verbatim>\<open>
  static cairo_surface_t *canvas_surf_to_invers(cairo_surface_t *surf)
  {
      int width = cairo_image_surface_get_width(surf);
      int height = cairo_image_surface_get_height(surf);
      ...
      ASSERT(cairo_image_surface_get_format(surf) == CAIRO_FORMAT_RGB24);
      cairo_surface_t *invers = cairo_image_surface_create(CAIRO_FORMAT_RGB24, width, height);
      if (cairo_surface_status(invers) != CAIRO_STATUS_SUCCESS) { CANVAS_ERROR(...); }
      dest_line = cairo_image_surface_get_data(invers);
      dest_stride = cairo_image_surface_get_stride(invers);
      dest_line_end = dest_line + dest_stride * height;
      src_line = cairo_image_surface_get_data(surf);
      src_stride = cairo_image_surface_get_stride(surf);
      for (; dest_line != dest_line_end; dest_line += dest_stride, src_line += src_stride) {
          uint32_t *src = (uint32_t *)src_line;
          uint32_t *dest = (uint32_t *)dest_line;
          uint32_t *end = dest + width;
          while (dest < end) { *(dest++) = ~*(src++) & 0x00ffffff; }
      }
      return invers;
  }
  \<close>
  Here the stepped pointer that ends the loop is the destination pointer.
\<close>

definition load32_mem :: "memory \<Rightarrow> int \<Rightarrow> uint32_t" where
  "load32_mem mem p =
     ucast (mem p) OR push_bit 8 (ucast (mem (p + 1)))
       OR push_bit 16 (ucast (mem (p + 2))) OR push_bit 24 (ucast (mem (p + 3)))"

function surf_to_invers_pixels ::
  "memory \<Rightarrow> int \<Rightarrow> nat \<Rightarrow> int \<Rightarrow> uint8_t list \<Rightarrow> uint8_t list" where
  "surf_to_invers_pixels mem src dest end drow =
     (if int dest < end
      then surf_to_invers_pixels mem (src + 4) (dest + 1) end
             (store32 drow dest (NOT (load32_mem mem src) AND 0x00ffffff))
      else drow)"
  by pat_completeness auto
termination
  by (relation "measure (\<lambda>(mem, src, dest, end, drow). nat (end - int dest))") auto

declare surf_to_invers_pixels.simps [simp del]

definition surf_to_invers_line ::
  "uint8_t list \<Rightarrow> int \<Rightarrow> int \<Rightarrow> uint8_t list \<Rightarrow> error + uint8_t list" where
  "surf_to_invers_line src_data width src_line drow =
     (if in_buf src_data src_line (nat (4 * width))
      then Inr (surf_to_invers_pixels (memory_of src_data) src_line 0 width drow)
      else Inl MEMORY_FAULT)"

definition canvas_surf_to_invers :: "cairo_surface_t \<Rightarrow> (error + cairo_surface_t) option" where
  "canvas_surf_to_invers surf =
     (let width = surface_width surf;
          height = surface_height surf
      in if surface_format surf \<noteq> CAIRO_FORMAT_RGB24
         then Some (Inl (ASSERT ''cairo_image_surface_get_format(surf) == CAIRO_FORMAT_RGB24''))
         else
           let invers = cairo_image_surface_create CAIRO_FORMAT_RGB24 width height
           in if surface_status invers \<noteq> CAIRO_STATUS_SUCCESS
              then Some (Inl (CANVAS_ERROR ''create surface failed''))
              else
                let dest_line = 0;
                    dest_stride = surface_stride invers;
                    dest_line_end = dest_line + dest_stride * height;
                    src_line = 0;
                    src_stride = surface_stride surf
                in map_option (map_sum id (\<lambda>buf. invers\<lparr>surface_data := buf\<rparr>))
                     (for_each_line
                        (\<lambda>dest_line src_line.
                           on_dest_line (nat (4 * width))
                             (surf_to_invers_line (surface_data surf) width src_line) dest_line)
                        dest_line dest_line_end dest_stride src_line src_stride
                        (surface_data invers)))"

text \<open>
  A surface laid out as \<^verbatim>\<open>cairo_image_surface_create\<close> lays it out: that status, the
  stride of its format and width, and a pixel buffer of \<open>stride * height\<close> bytes.
\<close>

definition cairo_image_surface :: "cairo_surface_t \<Rightarrow> bool" where
  "cairo_image_surface s \<longleftrightarrow>
     surface_status s = CAIRO_STATUS_SUCCESS \<and> 0 \<le> surface_width s \<and> 0 \<le> surface_height s
     \<and> surface_stride s = cairo_format_stride_for_width (surface_format s) (surface_width s)
     \<and> length (surface_data s) = nat (surface_stride s * surface_height s)"

section \<open>Palette resolution\<close>

text \<open>
  The canvas state that palette resolution touches: the colour depth
  (\<^verbatim>\<open>color_shift\<close> is 5 in 16-bit mode, 8 otherwise), the memory that holds palettes (the
  \<^verbatim>\<open>Palette\<close> found at a local address, be it in the caller's wire buffer or elsewhere),
  and the palette cache.

  Modelled from the spec: the palette cache is a collaborator reached through function
  pointers, \<^verbatim>\<open>put(palette) -> StoredPalette\<close> and \<^verbatim>\<open>get(id) -> BorrowedPalette\<close>. Here
  \<open>put\<close> stores a copy of the palette it is handed, and \<open>get\<close> is a function from the
  id to the address of the stored palette.
\<close>

record CanvasBase =
  color_shift :: uint32_t
  palettes :: "ADDRESS \<Rightarrow> Palette"
  palette_cache :: "Palette list"

definition palette_cache_put :: "CanvasBase \<Rightarrow> ADDRESS \<Rightarrow> CanvasBase" where
  "palette_cache_put canvas palette =
     canvas\<lparr> palette_cache := palettes canvas palette # palette_cache canvas \<rparr>"

text \<open>
  \<^verbatim>\<open>
  static inline void canvas_localize_palette(CanvasBase *canvas, Palette *palette)
  {
      if (canvas->color_shift == 5) {
          UINT32 *now = palette->ents;
          UINT32 *end = now + palette->num_ents;
          for (; now < end; now++) {
              *now = canvas_16bpp_to_32bpp(*now);
          }
      }
  }
  \<close>
  The function writes through the pointer it is given: the palette at that address is
  replaced.
\<close>

definition localize_ents :: "Palette \<Rightarrow> Palette" where
  "localize_ents p =
     p\<lparr> ents := fold (\<lambda>now e. e(now := canvas_16bpp_to_32bpp (e now)))
                    [0..<unat (num_ents p)] (ents p) \<rparr>"

definition canvas_localize_palette :: "CanvasBase \<Rightarrow> ADDRESS \<Rightarrow> CanvasBase" where
  "canvas_localize_palette canvas palette =
     (if color_shift canvas = 5
      then canvas\<lparr> palettes := (palettes canvas)(palette := localize_ents (palettes canvas palette)) \<rparr>
      else canvas)"

text \<open>
  \<^verbatim>\<open>
  static inline Palette *canvas_get_palett(CanvasBase *canvas, ADDRESS base_palette,
                                           uint8_t flags)
  {
      Palette *palette;
      if (!base_palette) { return NULL; }
      if (flags & BITMAP_PAL_FROM_CACHE) {
          palette = canvas->palette_cache_get(canvas->palette_cache_opaque, base_palette);
      } else if (flags & BITMAP_PAL_CACHE_ME) {
          palette = (Palette *)GET_ADDRESS(base_palette);
          canvas_localize_palette(canvas, palette);
          canvas->palette_cache_put(canvas->palette_cache_opaque, palette);
      } else {
          palette = (Palette *)GET_ADDRESS(base_palette);
          canvas_localize_palette(canvas, palette);
      }
      return palette;
  }
  \<close>
  The macro \<^verbatim>\<open>GET_ADDRESS\<close> is defined outside the source file; it is a parameter, the
  map from a protocol address to a local address. The result is the returned pointer
  (\<open>None\<close> for \<^verbatim>\<open>NULL\<close>) and the canvas state.
\<close>

definition canvas_get_palett ::
  "(ADDRESS \<Rightarrow> ADDRESS) \<Rightarrow> (ADDRESS \<Rightarrow> ADDRESS) \<Rightarrow> CanvasBase \<Rightarrow> ADDRESS \<Rightarrow> bitmap_flag set
     \<Rightarrow> ADDRESS option \<times> CanvasBase" where
  "canvas_get_palett GET_ADDRESS palette_cache_get canvas base_palette flags =
     (if base_palette = 0 then (None, canvas)
      else if BITMAP_PAL_FROM_CACHE \<in> flags
      then (Some (palette_cache_get base_palette), canvas)
      else if BITMAP_PAL_CACHE_ME \<in> flags
      then
        let palette = GET_ADDRESS base_palette;
            canvas = canvas_localize_palette canvas palette;
            canvas = palette_cache_put canvas palette
        in (Some palette, canvas)
      else
        let palette = GET_ADDRESS base_palette;
            canvas = canvas_localize_palette canvas palette
        in (Some palette, canvas))"

section \<open>Chunked Quic input\<close>

text \<open>
  \<^verbatim>\<open>
  typedef struct ATTR_PACKED DataChunk {
      UINT32 size;
      ADDRESS prev;
      ADDRESS next;
      UINT8 data[0];
  } DataChunk;
  \<close>
  \<open>chunk_data\<close> is the memory behind the header, \<open>size\<close> bytes of payload. The chunk
  memory is a function from local addresses to the chunk found there.
\<close>

record DataChunk =
  chunk_size :: uint32_t
  chunk_prev :: ADDRESS
  chunk_next :: ADDRESS
  chunk_data :: "uint8_t list"

text \<open>The two fields of \<^verbatim>\<open>QuicData\<close> that the chunk walk uses.\<close>

record QuicData =
  quic_next :: ADDRESS
  quic_address_delta :: ADDRESS

text \<open>
  The start of \<^verbatim>\<open>canvas_get_quic\<close> (chunked build):
  \<^verbatim>\<open>
  tmp = (DataChunk **)image->quic.data;
  chunk = *tmp;
  quic_data->next = chunk->next;
  quic_data->address_delta = canvas->address_delta;
  if (quic_decode_begin(quic_data->quic, (uint32_t *)chunk->data, chunk->size >> 2,
                        &type, &width, &height) == QUIC_ERROR) { ... }
  \<close>
  \<open>first_chunk\<close> is the pointer stored at \<^verbatim>\<open>image->quic.data\<close>. The result is the
  \<^verbatim>\<open>QuicData\<close> fields as set, and the input handed to \<^verbatim>\<open>quic_decode_begin\<close>: the data
  pointer and the number of 32-bit words.
\<close>

definition canvas_get_quic_input ::
  "(ADDRESS \<Rightarrow> DataChunk) \<Rightarrow> ADDRESS \<Rightarrow> ADDRESS \<Rightarrow> QuicData \<times> uint8_t list \<times> uint32_t" where
  "canvas_get_quic_input chunks address_delta first_chunk =
     (let chunk = chunks first_chunk
      in (\<lparr> quic_next = chunk_next chunk, quic_address_delta = address_delta \<rparr>,
          chunk_data chunk, drop_bit 2 (chunk_size chunk)))"

text \<open>
  \<^verbatim>\<open>
  static int quic_usr_more_space(QuicUsrContext *usr, uint32_t **io_ptr, int rows_completed)
  {
      QuicData *quic_data = (QuicData *)usr;
      DataChunk *chunk;
      if (!quic_data->next) { return 0; }
      chunk = (DataChunk *)GET_ADDRESS(quic_data->next + quic_data->address_delta);
      quic_data->next = chunk->next;
      *io_ptr = (uint32_t *)chunk->data;
      return chunk->size >> 2;
  }
  \<close>
  The result is the returned word count, the new value of \<^verbatim>\<open>*io_ptr\<close> when it is
  written, and the updated \<^verbatim>\<open>QuicData\<close>.
\<close>

definition quic_usr_more_space ::
  "(ADDRESS \<Rightarrow> ADDRESS) \<Rightarrow> (ADDRESS \<Rightarrow> DataChunk) \<Rightarrow> QuicData
     \<Rightarrow> int \<times> uint8_t list option \<times> QuicData" where
  "quic_usr_more_space GET_ADDRESS chunks quic_data =
     (if quic_next quic_data = 0 then (0, None, quic_data)
      else
        let chunk = chunks (GET_ADDRESS (quic_next quic_data + quic_address_delta quic_data))
        in (sint (drop_bit 2 (chunk_size chunk)), Some (chunk_data chunk),
            quic_data\<lparr> quic_next := chunk_next chunk \<rparr>))"

text \<open>The result of the \<open>n\<close>-th of a series of calls (\<open>n = 0\<close> is the first).\<close>

fun more_space_call ::
  "(ADDRESS \<Rightarrow> ADDRESS) \<Rightarrow> (ADDRESS \<Rightarrow> DataChunk) \<Rightarrow> QuicData \<Rightarrow> nat
     \<Rightarrow> int \<times> uint8_t list option \<times> QuicData" where
  "more_space_call GET_ADDRESS chunks quic_data 0 =
     quic_usr_more_space GET_ADDRESS chunks quic_data"
| "more_space_call GET_ADDRESS chunks quic_data (Suc n) =
     more_space_call GET_ADDRESS chunks
       (snd (snd (quic_usr_more_space GET_ADDRESS chunks quic_data))) n"

text \<open>
  Modelled from the spec: the Quic engine (\<^verbatim>\<open>quic.c\<close>) is not in the source file. It
  consumes its input in 32-bit words from the span it was last given; when the span is
  exhausted it calls \<^verbatim>\<open>more_space\<close>, and a return of zero words in the middle of a
  decode is an incomplete stream: the engine calls the \<^verbatim>\<open>error\<close> callback, which in the
  source (\<^verbatim>\<open>quic_usr_error\<close>, then the \<^verbatim>\<open>setjmp\<close> branch of \<^verbatim>\<open>canvas_get_quic\<close>) ends the
  call with \<^verbatim>\<open>CANVAS_ERROR("quic error, ...")\<close>. The reader state is the unread bytes of
  the current span and the \<^verbatim>\<open>QuicData\<close>.
\<close>

definition quic_read_word ::
  "(ADDRESS \<Rightarrow> ADDRESS) \<Rightarrow> (ADDRESS \<Rightarrow> DataChunk) \<Rightarrow> uint8_t list \<times> QuicData
     \<Rightarrow> error + (uint8_t list \<times> (uint8_t list \<times> QuicData))" where
  "quic_read_word GET_ADDRESS chunks input =
     (case input of (span, quic_data) \<Rightarrow>
        if 4 \<le> length span then Inr (take 4 span, (drop 4 span, quic_data))
        else
          (case quic_usr_more_space GET_ADDRESS chunks quic_data of
             (words, io_ptr, quic_data') \<Rightarrow>
               (case io_ptr of
                  None \<Rightarrow> Inl (CANVAS_ERROR ''quic error'')
                | Some data \<Rightarrow>
                    if words \<le> 0 then Inl (CANVAS_ERROR ''quic error'')
                    else
                      let span' = take (4 * nat words) data
                      in Inr (take 4 span', (drop 4 span', quic_data')))))"

fun quic_read_words ::
  "(ADDRESS \<Rightarrow> ADDRESS) \<Rightarrow> (ADDRESS \<Rightarrow> DataChunk) \<Rightarrow> nat \<Rightarrow> uint8_t list \<times> QuicData
     \<Rightarrow> error + (uint8_t list \<times> (uint8_t list \<times> QuicData))" where
  "quic_read_words GET_ADDRESS chunks 0 input = Inr ([], input)"
| "quic_read_words GET_ADDRESS chunks (Suc n) input =
     (case quic_read_word GET_ADDRESS chunks input of
        Inl e \<Rightarrow> Inl e
      | Inr (word, input') \<Rightarrow>
          (case quic_read_words GET_ADDRESS chunks n input' of
             Inl e \<Rightarrow> Inl e
           | Inr (rest, input'') \<Rightarrow> Inr (word @ rest, input'')))"

text \<open>The input of a decode that starts on the chunk at \<open>first_chunk\<close>.\<close>

definition quic_input ::
  "(ADDRESS \<Rightarrow> DataChunk) \<Rightarrow> ADDRESS \<Rightarrow> ADDRESS \<Rightarrow> uint8_t list \<times> QuicData" where
  "quic_input chunks address_delta first_chunk =
     (case canvas_get_quic_input chunks address_delta first_chunk of
        (quic_data, data, words) \<Rightarrow> (take (4 * unat words) data, quic_data))"

section \<open>Surface objects and the bits cache\<close>

text \<open>
  The code knows a surface by pointer: a reference-counted object of the cairo library
  that may carry one piece of user data, here the pointer of its inverse surface. The
  object store maps the pointers of the live objects to their values, and a new object
  gets the next unused pointer. The last \<^verbatim>\<open>cairo_surface_destroy\<close> of an object frees it
  and runs the destroy function registered with its user data, which for the inverse
  attachment is
  \<^verbatim>\<open>
  static void __release_surface(void *inv_surf)
  {
      cairo_surface_destroy((cairo_surface_t *)inv_surf);
  }
  \<close>
  An attached inverse carries no attachment of its own, so that release is one step.
  Allocation does not fail, so \<^verbatim>\<open>cairo_surface_set_user_data\<close> returns success.
\<close>

record canvas_heap =
  surfaces :: "surface_ptr \<Rightarrow> cairo_surface_t option"
  next_surface :: surface_ptr
  bits_cache :: "64 word \<Rightarrow> surface_ptr option"

definition new_surface :: "cairo_surface_t \<Rightarrow> canvas_heap \<Rightarrow> surface_ptr \<times> canvas_heap" where
  "new_surface s h =
     (next_surface h,
      h\<lparr> surfaces := (surfaces h)(next_surface h \<mapsto> s),
         next_surface := Suc (next_surface h) \<rparr>)"

definition cairo_surface_get_user_data :: "canvas_heap \<Rightarrow> surface_ptr \<Rightarrow> surface_ptr option" where
  "cairo_surface_get_user_data h surface =
     (case surfaces h surface of None \<Rightarrow> None | Some s \<Rightarrow> surface_user_data s)"

definition cairo_surface_set_user_data ::
  "canvas_heap \<Rightarrow> surface_ptr \<Rightarrow> surface_ptr \<Rightarrow> cairo_status_t \<times> canvas_heap" where
  "cairo_surface_set_user_data h surface user_data =
     (CAIRO_STATUS_SUCCESS,
      (case surfaces h surface of
         None \<Rightarrow> h
       | Some s \<Rightarrow>
           h\<lparr> surfaces := (surfaces h)(surface \<mapsto> s\<lparr> surface_user_data := Some user_data \<rparr>) \<rparr>))"

definition cairo_surface_reference :: "canvas_heap \<Rightarrow> surface_ptr \<Rightarrow> canvas_heap" where
  "cairo_surface_reference h surface =
     (case surfaces h surface of
        None \<Rightarrow> h
      | Some s \<Rightarrow>
          h\<lparr> surfaces :=
               (surfaces h)(surface \<mapsto> s\<lparr> surface_ref_count := Suc (surface_ref_count s) \<rparr>) \<rparr>)"

definition surface_unreference :: "canvas_heap \<Rightarrow> surface_ptr \<Rightarrow> canvas_heap" where
  "surface_unreference h surface =
     (case surfaces h surface of
        None \<Rightarrow> h
      | Some s \<Rightarrow>
          if surface_ref_count s \<le> 1
          then h\<lparr> surfaces := (surfaces h)(surface := None) \<rparr>
          else h\<lparr> surfaces :=
                    (surfaces h)(surface \<mapsto> s\<lparr> surface_ref_count := surface_ref_count s - 1 \<rparr>) \<rparr>)"

definition cairo_surface_destroy :: "canvas_heap \<Rightarrow> surface_ptr \<Rightarrow> canvas_heap" where
  "cairo_surface_destroy h surface =
     (case surfaces h surface of
        None \<Rightarrow> h
      | Some s \<Rightarrow>
          if surface_ref_count s \<le> 1
          then (case surface_user_data s of
                  None \<Rightarrow> surface_unreference h surface
                | Some inv_surf \<Rightarrow> surface_unreference (surface_unreference h surface) inv_surf)
          else surface_unreference h surface)"

text \<open>
  Modelled from the spec: the bits cache belongs to the application and is reached
  through the function pointers \<^verbatim>\<open>bits_cache_put\<close> and \<^verbatim>\<open>bits_cache_get\<close> of the canvas:
  \<^verbatim>\<open>put(id, surface)\<close> and \<^verbatim>\<open>get(id) -> Option<Surface>\<close>, a lookup of an absent id
  failing with the cache coherency error. \<open>put\<close> stores the pointer it is handed, replacing
  an entry of the same id, and the cache holds a reference of its own on a stored surface
  (\<^verbatim>\<open>canvas_get_mask\<close> destroys its reference after the \<open>put\<close>); \<open>get\<close> hands out one
  reference with the pointer.
\<close>

definition bits_cache_put :: "canvas_heap \<Rightarrow> 64 word \<Rightarrow> surface_ptr \<Rightarrow> canvas_heap" where
  "bits_cache_put h image_id surface =
     (cairo_surface_reference h surface)\<lparr> bits_cache := (bits_cache h)(image_id \<mapsto> surface) \<rparr>"

definition bits_cache_get ::
  "canvas_heap \<Rightarrow> 64 word \<Rightarrow> error + surface_ptr \<times> canvas_heap" where
  "bits_cache_get h image_id =
     (case bits_cache h image_id of
        None \<Rightarrow> Inl (CANVAS_ERROR ''cache coherency: no entry for the id'')
      | Some surface \<Rightarrow> Inr (surface, cairo_surface_reference h surface))"

section \<open>The inverse of a surface\<close>

text \<open>
  \<^verbatim>\<open>
  static inline cairo_surface_t* canvas_handle_inverse_user_data(cairo_surface_t* surface)
  {
      cairo_surface_t *inv_surf = NULL;
      MUTEX_LOCK(cairo_surface_user_data_mutex);
      inv_surf = (cairo_surface_t *)cairo_surface_get_user_data(surface, &invers_data_type);
      MUTEX_UNLOCK(cairo_surface_user_data_mutex);
      if (!inv_surf) {
          if (cairo_image_surface_get_format(surface) == CAIRO_FORMAT_A1) {
              inv_surf = canvas_A1_invers(surface);
          } else {
              inv_surf = canvas_surf_to_invers(surface);
          }
          if (cairo_surface_status(inv_surf) != CAIRO_STATUS_SUCCESS) {
              cairo_surface_destroy(inv_surf);
              CANVAS_ERROR("create surface failed, %s", ...);
          }
          MUTEX_LOCK(cairo_surface_user_data_mutex);
          // checking if other thread has already assigned the user data
          if (!cairo_surface_get_user_data(surface, &invers_data_type)) {
              if (cairo_surface_set_user_data(surface, &invers_data_type, inv_surf,
                                              __release_surface) == CAIRO_STATUS_SUCCESS) {
                  cairo_surface_reference(inv_surf);
              }
          }
          MUTEX_UNLOCK(cairo_surface_user_data_mutex);
      } else {
          cairo_surface_reference(inv_surf);
      }
      return inv_surf;
  }
  \<close>
  This is the function as built with \<^verbatim>\<open>CAIRO_CANVAS_CACH_IS_SHARED\<close>. It has three
  parts: the lookup under the lock, the computation of the inverse outside the lock, and
  the attachment under the lock. The computation reads the object of \<open>surface\<close> and
  allocates the inverse; a pointer to no live object stops it with \<open>MEMORY_FAULT\<close>.
\<close>

definition inverse_compute ::
  "canvas_heap \<Rightarrow> surface_ptr \<Rightarrow> (error + surface_ptr \<times> canvas_heap) option" where
  "inverse_compute h surface =
     (case surfaces h surface of
        None \<Rightarrow> Some (Inl MEMORY_FAULT)
      | Some s \<Rightarrow>
          (case (if surface_format s = CAIRO_FORMAT_A1 then canvas_A1_invers s
                 else canvas_surf_to_invers s) of
             None \<Rightarrow> None
           | Some (Inl e) \<Rightarrow> Some (Inl e)
           | Some (Inr invers) \<Rightarrow>
               (case new_surface invers h of
                  (inv_surf, h') \<Rightarrow>
                    if surface_status invers \<noteq> CAIRO_STATUS_SUCCESS
                    then Some (Inl (CANVAS_ERROR ''create surface failed''))
                    else Some (Inr (inv_surf, h')))))"

definition inverse_attach :: "canvas_heap \<Rightarrow> surface_ptr \<Rightarrow> surface_ptr \<Rightarrow> canvas_heap" where
  "inverse_attach h surface inv_surf =
     (if cairo_surface_get_user_data h surface = None
      then (case cairo_surface_set_user_data h surface inv_surf of
              (status, h') \<Rightarrow>
                if status = CAIRO_STATUS_SUCCESS then cairo_surface_reference h' inv_surf
                else h')
      else h)"

definition canvas_handle_inverse_user_data ::
  "canvas_heap \<Rightarrow> surface_ptr \<Rightarrow> (error + surface_ptr \<times> canvas_heap) option" where
  "canvas_handle_inverse_user_data h surface =
     (case cairo_surface_get_user_data h surface of
        Some inv_surf \<Rightarrow> Some (Inr (inv_surf, cairo_surface_reference h inv_surf))
      | None \<Rightarrow>
          (case inverse_compute h surface of
             None \<Rightarrow> None
           | Some (Inl e) \<Rightarrow> Some (Inl e)
           | Some (Inr (inv_surf, h')) \<Rightarrow>
               Some (Inr (inv_surf, inverse_attach h' surface inv_surf))))"

section \<open>Masks\<close>

text \<open>
  \<^verbatim>\<open>
  static cairo_surface_t *canvas_get_mask(CanvasBase *canvas, QMask *mask)
  {
      ImageDescriptor *descriptor;
      cairo_surface_t *surface;
      int need_invers;
      int is_invers;
      int cache_me;

      if (!mask->bitmap) {
          return NULL;
      }
      descriptor = (ImageDescriptor *)GET_ADDRESS(mask->bitmap);
      access_test(canvas, descriptor, sizeof(ImageDescriptor));
      need_invers = mask->flags & MASK_INVERS;
      cache_me = descriptor->flags & IMAGE_CACHE_ME;

      switch (descriptor->type) {
      case IMAGE_TYPE_BITMAP: {
          BitmapImage *bitmap = (BitmapImage *)descriptor;
          access_test(canvas, descriptor, sizeof(BitmapImage));
          is_invers = need_invers && !cache_me;
          surface = canvas_get_bitmap_mask(canvas, &bitmap->bitmap, is_invers);
          break;
      }
      case IMAGE_TYPE_FROM_CACHE:
          surface = canvas->bits_cache_get(canvas->bits_cache_opaque, descriptor->id);
          is_invers = 0;
          break;
      default:
          CANVAS_ERROR("invalid image type");
      }

      if (cache_me) {
          canvas->bits_cache_put(canvas->bits_cache_opaque, descriptor->id, surface);
      }

      if (need_invers && !is_invers) { // surface is in cache
          cairo_surface_t *inv_surf;

          inv_surf = canvas_handle_inverse_user_data(surface);

          cairo_surface_destroy(surface);
          surface = inv_surf;
      }
      return surface;
  }
  \<close>
  This is the function as built with \<^verbatim>\<open>CAIRO_CANVAS_CACHE\<close>. \<open>images\<close> is the wire memory
  read as a \<^verbatim>\<open>BitmapImage\<close> at a local address (for a descriptor of another type only
  the descriptor part is read); the result is the pointer returned, \<open>None\<close> for \<^verbatim>\<open>NULL\<close>,
  and the object store after the call.
\<close>

datatype image_type =
  IMAGE_TYPE_BITMAP | IMAGE_TYPE_QUIC | IMAGE_TYPE_LZ_PLT | IMAGE_TYPE_LZ_RGB
  | IMAGE_TYPE_GLZ_RGB | IMAGE_TYPE_FROM_CACHE

datatype image_flag = IMAGE_CACHE_ME

datatype mask_flag = MASK_INVERS

record ImageDescriptor =
  descriptor_id :: "64 word"
  descriptor_type :: image_type
  descriptor_flags :: "image_flag set"

record BitmapImage =
  image_descriptor :: ImageDescriptor
  image_bitmap :: Bitmap

record QMask =
  mask_flags :: "mask_flag set"
  mask_bitmap :: ADDRESS

definition canvas_get_mask ::
  "(ADDRESS \<Rightarrow> ADDRESS) \<Rightarrow> (ADDRESS \<Rightarrow> BitmapImage) \<Rightarrow> canvas_heap \<Rightarrow> QMask
     \<Rightarrow> (error + surface_ptr option \<times> canvas_heap) option" where
  "canvas_get_mask GET_ADDRESS images h qmask =
     (if mask_bitmap qmask = 0 then Some (Inr (None, h))
      else
        let image = images (GET_ADDRESS (mask_bitmap qmask));
            descriptor = image_descriptor image;
            need_invers = (MASK_INVERS \<in> mask_flags qmask);
            cache_me = (IMAGE_CACHE_ME \<in> descriptor_flags descriptor)
        in case (case descriptor_type descriptor of
                   IMAGE_TYPE_BITMAP \<Rightarrow>
                     (let is_invers = (need_invers \<and> \<not> cache_me)
                      in case canvas_get_bitmap_mask (image_bitmap image) is_invers of
                           None \<Rightarrow> None
                         | Some (Inl e) \<Rightarrow> Some (Inl e)
                         | Some (Inr s) \<Rightarrow>
                             (case new_surface s h of
                                (surface, h') \<Rightarrow> Some (Inr (surface, is_invers, h'))))
                 | IMAGE_TYPE_FROM_CACHE \<Rightarrow>
                     (case bits_cache_get h (descriptor_id descriptor) of
                        Inl e \<Rightarrow> Some (Inl e)
                      | Inr (surface, h') \<Rightarrow> Some (Inr (surface, False, h')))
                 | _ \<Rightarrow> Some (Inl (CANVAS_ERROR ''invalid image type''))) of
             None \<Rightarrow> None
           | Some (Inl e) \<Rightarrow> Some (Inl e)
           | Some (Inr (surface, is_invers, h1)) \<Rightarrow>
               let h2 = (if cache_me then bits_cache_put h1 (descriptor_id descriptor) surface
                         else h1)
               in if need_invers \<and> \<not> is_invers
                  then (case canvas_handle_inverse_user_data h2 surface of
                          None \<Rightarrow> None
                        | Some (Inl e) \<Rightarrow> Some (Inl e)
                        | Some (Inr (inv_surf, h3)) \<Rightarrow>
                            Some (Inr (Some inv_surf, cairo_surface_destroy h3 surface)))
                  else Some (Inr (Some surface, h2)))"

section \<open>Concurrent requests for the inverse of one surface\<close>

text \<open>
  With \<^verbatim>\<open>CAIRO_CANVAS_CACH_IS_SHARED\<close> several threads may be inside
  \<^verbatim>\<open>canvas_handle_inverse_user_data\<close> for the same surface. A call is at one of these
  points: before the lookup; after a lookup that found the inverse \<open>inv_surf\<close>, before
  \<^verbatim>\<open>cairo_surface_reference(inv_surf)\<close>; after a lookup that found nothing, before the
  computation; after the computation of \<open>inv_surf\<close>, before the attachment; returned with
  \<open>inv_surf\<close>; or stopped in \<^verbatim>\<open>CANVAS_ERROR\<close>. The mutex makes the lookup and the attachment
  atomic. The computation writes only the object it allocates and reads pixels that no
  call writes, and cairo changes reference counts atomically, so each move of a call from
  one point to the next is taken as one step, built from the parts of the function
  defined above.
\<close>

datatype inverse_call =
  AT_LOOKUP | AT_REFERENCE surface_ptr | AT_COMPUTE | AT_ATTACH surface_ptr
  | RETURNED surface_ptr | ABORTED error

definition inverse_step ::
  "surface_ptr \<Rightarrow> inverse_call \<Rightarrow> canvas_heap \<Rightarrow> (inverse_call \<times> canvas_heap) option" where
  "inverse_step surface call h =
     (case call of
        AT_LOOKUP \<Rightarrow>
          (case cairo_surface_get_user_data h surface of
             None \<Rightarrow> Some (AT_COMPUTE, h)
           | Some inv_surf \<Rightarrow> Some (AT_REFERENCE inv_surf, h))
      | AT_REFERENCE inv_surf \<Rightarrow> Some (RETURNED inv_surf, cairo_surface_reference h inv_surf)
      | AT_COMPUTE \<Rightarrow>
          (case inverse_compute h surface of
             None \<Rightarrow> None
           | Some (Inl e) \<Rightarrow> Some (ABORTED e, h)
           | Some (Inr (inv_surf, h')) \<Rightarrow> Some (AT_ATTACH inv_surf, h'))
      | AT_ATTACH inv_surf \<Rightarrow> Some (RETURNED inv_surf, inverse_attach h surface inv_surf)
      | RETURNED inv_surf \<Rightarrow> Some (RETURNED inv_surf, h)
      | ABORTED e \<Rightarrow> Some (ABORTED e, h))"

text \<open>
  A schedule is the list of the threads in the order in which they take their steps;
  every thread starts before the lookup. The result is \<open>None\<close> when a computation does
  not return.
\<close>

fun run_schedule ::
  "surface_ptr \<Rightarrow> nat list \<Rightarrow> (nat \<Rightarrow> inverse_call) \<times> canvas_heap
     \<Rightarrow> ((nat \<Rightarrow> inverse_call) \<times> canvas_heap) option" where
  "run_schedule surface [] st = Some st"
| "run_schedule surface (i # sch) st =
     (case inverse_step surface (fst st i) (snd st) of
        None \<Rightarrow> None
      | Some (call, h') \<Rightarrow> run_schedule surface sch ((fst st)(i := call), h'))"






text \<open>The inverse a call has in hand: the one it computed or the one it returned.\<close>

fun in_hand :: "inverse_call \<Rightarrow> surface_ptr option" where
  "in_hand (AT_ATTACH inv_surf) = Some inv_surf"
| "in_hand (RETURNED inv_surf) = Some inv_surf"
| "in_hand call = None"



section \<open>Unrolled row loops\<close>

text \<open>
  \<open>lines_n n\<close> runs the body of a row loop \<open>n\<close> times. A row loop whose end pointer is
  \<open>n\<close> nonzero steps away is shown below to stop after exactly \<open>n\<close> rows with this result.
\<close>

fun lines_n ::
  "nat \<Rightarrow> line_body \<Rightarrow> int \<Rightarrow> int \<Rightarrow> int \<Rightarrow> int \<Rightarrow> uint8_t list \<Rightarrow> error + uint8_t list" where
  "lines_n 0 body p p_stride q q_stride buf = Inr buf"
| "lines_n (Suc n) body p p_stride q q_stride buf =
     (case body p q buf of
        Inl e \<Rightarrow> Inl e
      | Inr buf' \<Rightarrow> lines_n n body (p + p_stride) p_stride (q + q_stride) q_stride buf')"

text \<open>
  A loop body that rewrites the window of \<open>w\<close> bytes at the destination pointer \<open>d p q\<close>
  (one of the two stepped pointers) with the row function \<open>G p q\<close>.
\<close>

definition row_body ::
  "nat \<Rightarrow> (int \<Rightarrow> int \<Rightarrow> int) \<Rightarrow> (int \<Rightarrow> int \<Rightarrow> uint8_t list \<Rightarrow> error + uint8_t list)
     \<Rightarrow> line_body" where
  "row_body w d G = (\<lambda>p q buf. on_dest_line w (G p q) (d p q) buf)"

definition keeps_length ::
  "nat \<Rightarrow> (int \<Rightarrow> int \<Rightarrow> uint8_t list \<Rightarrow> error + uint8_t list) \<Rightarrow> bool" where
  "keeps_length w G \<longleftrightarrow>
     (\<forall>p q drow row. length drow = w \<and> G p q drow = Inr row \<longrightarrow> length row = w)"

section \<open>Concrete inputs\<close>

text \<open>A palette of 16 entries, \<open>ents[i] = 0x100 + i\<close>.\<close>

definition palette_16 :: Palette where
  "palette_16 = \<lparr> num_ents = 16, ents = (\<lambda>i. 0x100 + word_of_nat i) \<rparr>"

text \<open>
  A palette of a single entry; the word that follows it in the buffer is \<open>0xdeadbeef\<close>.
\<close>

definition palette_1 :: Palette where
  "palette_1 = \<lparr> num_ents = 1, ents = (\<lambda>i. if i = 0 then 0x00ffffff else 0xdeadbeef) \<rparr>"

text \<open>A top-down 4-bit bitmap of one row of three pixels, the bytes \<open>0x12 0x30\<close>.\<close>

definition bitmap_4bpp_3x1 :: Bitmap where
  "bitmap_4bpp_3x1 =
     \<lparr> bitmap_format = BITMAP_FMT_4BIT_BE, bitmap_flags = {BITMAP_TOP_DOWN},
       bitmap_x = 3, bitmap_y = 1, bitmap_stride = 2, bitmap_palette = 1,
       bitmap_data = memory_of [0x12, 0x30] \<rparr>"

text \<open>A top-down 4-bit bitmap of a single pixel, index 15.\<close>

definition bitmap_4bpp_1x1 :: Bitmap where
  "bitmap_4bpp_1x1 =
     \<lparr> bitmap_format = BITMAP_FMT_4BIT_BE, bitmap_flags = {BITMAP_TOP_DOWN},
       bitmap_x = 1, bitmap_y = 1, bitmap_stride = 1, bitmap_palette = 1,
       bitmap_data = memory_of [0xf0] \<rparr>"

text \<open>A top-down 1-bit bitmap of a single pixel, the bit set.\<close>

definition bitmap_1bpp_1x1 :: Bitmap where
  "bitmap_1bpp_1x1 =
     \<lparr> bitmap_format = BITMAP_FMT_1BIT_BE, bitmap_flags = {BITMAP_TOP_DOWN},
       bitmap_x = 1, bitmap_y = 1, bitmap_stride = 1, bitmap_palette = 1,
       bitmap_data = memory_of [0x80] \<rparr>"

text \<open>A top-down 8-bit bitmap of a single pixel, index 1.\<close>

definition bitmap_8bpp_1x1 :: Bitmap where
  "bitmap_8bpp_1x1 =
     \<lparr> bitmap_format = BITMAP_FMT_8BIT, bitmap_flags = {BITMAP_TOP_DOWN},
       bitmap_x = 1, bitmap_y = 1, bitmap_stride = 1, bitmap_palette = 1,
       bitmap_data = memory_of [0x01] \<rparr>"






definition bitmap_1bpp_9x2 :: Bitmap where
  "bitmap_1bpp_9x2 =
     \<lparr> bitmap_format = BITMAP_FMT_1BIT_BE, bitmap_flags = {},
       bitmap_x = 9, bitmap_y = 2, bitmap_stride = 2, bitmap_palette = 0,
       bitmap_data = memory_of [0x01, 0x80, 0xf0, 0x00] \<rparr>"


text \<open>
  A canvas in 16-bit colour mode whose memory holds, at address \<open>0x1000\<close>, an inline
  palette of the two 16-bit colours \<open>0x001f\<close> and \<open>0x7c00\<close>.
\<close>

definition palette_inline :: Palette where
  "palette_inline =
     \<lparr> num_ents = 2, ents = (\<lambda>i. if i = 0 then 0x001f else if i = 1 then 0x7c00 else 0) \<rparr>"

definition canvas_16bit :: CanvasBase where
  "canvas_16bit =
     \<lparr> color_shift = 5,
       palettes = (\<lambda>a. if a = 0x1000 then palette_inline
                        else \<lparr> num_ents = 0, ents = (\<lambda>i. 0) \<rparr>),
       palette_cache = [] \<rparr>"

text \<open>
  Chunk memory with the chunk \<open>C0\<close> (8 bytes, next \<open>0x40\<close>) at local address \<open>0x2000\<close>
  and the chunk \<open>C1\<close> (4 bytes, no next) at \<open>0x40 + 0x3000\<close>, for the address delta
  \<open>0x3000\<close>.
\<close>

definition chunk_C0 :: DataChunk where
  "chunk_C0 = \<lparr> chunk_size = 8, chunk_prev = 0, chunk_next = 0x40,
                chunk_data = [1, 2, 3, 4, 5, 6, 7, 8] \<rparr>"

definition chunk_C1 :: DataChunk where
  "chunk_C1 = \<lparr> chunk_size = 4, chunk_prev = 0, chunk_next = 0,
                chunk_data = [9, 10, 11, 12] \<rparr>"

definition chunk_memory :: "ADDRESS \<Rightarrow> DataChunk" where
  "chunk_memory a = (if a = 0x2000 then chunk_C0 else chunk_C1)"

text \<open>
  An object store with no surface, the wire memory with a bitmap image to be cached at
  address \<open>0x100\<close> and a reference to the cached image of the same id elsewhere, and
  two mask requests: one for the bitmap image with inversion, one for the cached image
  without.
\<close>

definition heap_empty :: canvas_heap where
  "heap_empty = \<lparr> surfaces = (\<lambda>p. None), next_surface = 1, bits_cache = (\<lambda>i. None) \<rparr>"

definition bitmap_image_9x2 :: BitmapImage where
  "bitmap_image_9x2 =
     \<lparr> image_descriptor =
         \<lparr> descriptor_id = 7, descriptor_type = IMAGE_TYPE_BITMAP,
           descriptor_flags = {IMAGE_CACHE_ME} \<rparr>,
       image_bitmap = bitmap_1bpp_9x2 \<rparr>"

definition image_from_cache :: BitmapImage where
  "image_from_cache =
     \<lparr> image_descriptor =
         \<lparr> descriptor_id = 7, descriptor_type = IMAGE_TYPE_FROM_CACHE,
           descriptor_flags = {} \<rparr>,
       image_bitmap = bitmap_1bpp_9x2 \<rparr>"

definition wire_images :: "ADDRESS \<Rightarrow> BitmapImage" where
  "wire_images a = (if a = 0x100 then bitmap_image_9x2 else image_from_cache)"

definition qmask_invers :: QMask where
  "qmask_invers = \<lparr> mask_flags = {MASK_INVERS}, mask_bitmap = 0x100 \<rparr>"

definition qmask_plain :: QMask where
  "qmask_plain = \<lparr> mask_flags = {}, mask_bitmap = 0x200 \<rparr>"


section \<open>Lemmas on words\<close>

lemma upt_32: "[0..<32] = [0, 1, 2, 3, 4, 5, 6, 7, 8, 9, 10, 11, 12, 13, 14, 15, 16, 17, 18, 19, 20, 21, 22, 23, 24, 25, 26, 27, 28, 29, 30, 31]"
  by code_simp

lemma word32_eqI: "list_all (\<lambda>n. bit (a::32 word) n = bit b n) [0..<32] \<Longrightarrow> a = b"
  by (rule bit_eqI) (simp add: list_all_iff)

lemma bit_times2_word32:
  "bit (a * 2 :: 32 word) n \<longleftrightarrow> n < 32 \<and> n \<noteq> 0 \<and> bit a (n - 1)"
  using bit_double_iff [of a n] by (simp add: mult.commute possible_bit_word)

lemma masks_555:
  "(0x1f::32 word) = mask 5" "(0x1c :: 32 word) = push_bit 2 (mask 3)"
  "(0x3e0::32 word) = push_bit 5 (mask 5)" "(0x380::32 word) = push_bit 7 (mask 3)"
  "(0x7c00::32 word) = push_bit 10 (mask 5)" "(0x7000::32 word) = push_bit 12 (mask 3)"
  by (simp_all add: mask_eq_exp_minus_1)

lemma canvas_16bpp_to_32bpp_components:
  "canvas_16bpp_to_32bpp color =
     spec_expand_component 5 (color AND 0x1f)
     OR push_bit 8 (spec_expand_component 5 (drop_bit 5 color AND 0x1f))
     OR push_bit 16 (spec_expand_component 5 (drop_bit 10 color AND 0x1f))"
  unfolding canvas_16bpp_to_32bpp_def spec_expand_component_def Let_def masks_555
  apply (rule word32_eqI)
  unfolding upt_32
  apply (simp add: bit_simps bit_times2_word32)
  done

lemma word32_less_32_cases:
  assumes "(c::32 word) < 32"
  shows "c \<in> set (map word_of_nat [0..<32])"
proof -
  have "unat c < 32" using assms by (simp add: word_less_nat_alt)
  then have "unat c \<in> set [0..<32]" by simp
  then have "word_of_nat (unat c) \<in> set (map word_of_nat [0..<32] :: 32 word list)"
    unfolding set_map by (rule imageI)
  then show ?thesis by (simp del: set_map set_upt)
qed

lemma spec_expand_5_unat:
  assumes "(c::32 word) < 32"
  shows "unat (spec_expand_component 5 c) = unat c * 8 + unat c div 4"
proof -
  have "list_all (\<lambda>c. unat (spec_expand_component 5 c) = unat c * 8 + unat c div 4)
          (map word_of_nat [0..<32])"
    by code_simp
  then show ?thesis
    using word32_less_32_cases [OF assms] unfolding list_all_iff by blast
qed

section \<open>Lemmas on buffers and row loops\<close>

lemma for_each_line_unroll:
  "p_stride \<noteq> 0 \<Longrightarrow>
   for_each_line body p (p + int n * p_stride) p_stride q q_stride buf
     = Some (lines_n n body p p_stride q q_stride buf)"
proof (induction n arbitrary: p q buf)
  case 0
  then show ?case by (subst for_each_line.simps) simp
next
  case (Suc n)
  have ne: "p \<noteq> p + int (Suc n) * p_stride" using Suc.prems by simp
  have e: "p + int (Suc n) * p_stride = (p + p_stride) + int n * p_stride"
    by (simp add: algebra_simps)
  show ?case
    apply (subst for_each_line.simps)
    using ne apply (simp only: if_False)
    apply (cases "body p q buf")
     apply simp
    apply (simp only: sum.case lines_n.simps e Suc.IH [OF Suc.prems])
    done
qed

lemma length_poke: "in_buf buf p (length row) \<Longrightarrow> length (poke buf p row) = length buf"
  by (auto simp: in_buf_def poke_def)

lemma peek_poke_same:
  "in_buf buf p (length row) \<Longrightarrow> peek (poke buf p row) p (length row) = row"
  by (auto simp: in_buf_def poke_def peek_def)

lemma peek_poke_other:
  assumes "in_buf buf p (length row)" "0 \<le> a"
    and "a + int n \<le> p \<or> p + int (length row) \<le> a"
  shows "peek (poke buf p row) a n = peek buf a n"
  using assms(3)
proof
  assume h: "a + int n \<le> p"
  then have "nat a + n \<le> nat p" using assms(2) by linarith
  then show ?thesis
    using assms(1) by (simp add: in_buf_def poke_def peek_def take_drop)
next
  assume h: "p + int (length row) \<le> a"
  have p0: "0 \<le> p" using assms(1) by (simp add: in_buf_def)
  have "nat p + length row \<le> nat a" using h p0 by linarith
  then obtain k where k: "nat a = nat p + length row + k" using le_Suc_ex by blast
  have l: "length (take (nat p) buf) = nat p"  using assms(1) by (simp add: in_buf_def)
  show ?thesis
    unfolding poke_def peek_def k
    using l by (simp add: drop_append add.commute add.left_commute)
qed

lemma in_buf_poke: "in_buf buf p (length row) \<Longrightarrow> in_buf (poke buf p row) a n = in_buf buf a n"
  by (simp add: in_buf_def length_poke[unfolded in_buf_def])

lemma length_peek: "in_buf buf p n \<Longrightarrow> length (peek buf p n) = n"
  by (auto simp: in_buf_def peek_def)


lemma row_body_Inr:
  assumes "row_body w d G p q buf = Inr buf'" and "keeps_length w G"
  shows "in_buf buf (d p q) w \<and>
         (\<exists>row. G p q (peek buf (d p q) w) = Inr row \<and> length row = w
                \<and> buf' = poke buf (d p q) row)"
proof -
  have ib: "in_buf buf (d p q) w"
    using assms(1) by (auto simp: row_body_def on_dest_line_def split: if_splits)
  then obtain row where r: "G p q (peek buf (d p q) w) = Inr row" "buf' = poke buf (d p q) row"
    using assms(1) by (auto simp: row_body_def on_dest_line_def split: sum.splits)
  have "length row = w"
    using assms(2) r(1) length_peek [OF ib] unfolding keeps_length_def by blast
  then show ?thesis using ib r by blast
qed

lemma stride_disjoint:
  assumes "int w \<le> \<bar>ds\<bar>"
  shows "int w \<le> (int r + 1) * ds \<or> (int r + 1) * ds + int w \<le> 0"
proof (cases "0 \<le> ds")
  case True
  have "1 * ds \<le> (int r + 1) * ds" by (rule mult_right_mono) (use True in auto)
  then have "int w \<le> (int r + 1) * ds" using assms True by linarith
  then show ?thesis by blast
next
  case False
  have "(int r + 1) * ds \<le> 1 * ds" by (rule mult_right_mono_neg) (use False in auto)
  then have "(int r + 1) * ds + int w \<le> 0" using assms False by linarith
  then show ?thesis by blast
qed

lemma lines_n_length:
  assumes "lines_n n (row_body w d G) p ps q qs buf = Inr buf'" and "keeps_length w G"
  shows "length buf' = length buf"
  using assms(1)
proof (induction n arbitrary: p q buf)
  case 0
  then show ?case by simp
next
  case (Suc n)
  from Suc.prems obtain buf1 where b1: "row_body w d G p q buf = Inr buf1"
    and rest: "lines_n n (row_body w d G) (p + ps) ps (q + qs) qs buf1 = Inr buf'"
    by (auto split: sum.splits)
  from row_body_Inr [OF b1 assms(2)] have "length buf1 = length buf"
    by (auto simp: length_poke)
  then show ?case using Suc.IH [OF rest] by simp
qed

lemma lines_n_frame:
  assumes "lines_n n (row_body w d G) p ps q qs buf = Inr buf'"
    and step: "\<And>p q. d (p + ps) (q + qs) = d p q + ds"
    and len: "keeps_length w G"
    and a0: "0 \<le> a"
    and dis: "\<And>r. r < n \<Longrightarrow> a + int m \<le> d p q + int r * ds \<or> d p q + int r * ds + int w \<le> a"
  shows "peek buf' a m = peek buf a m"
  using assms(1) dis
proof (induction n arbitrary: p q buf)
  case 0
  then show ?case by simp
next
  case (Suc n)
  from Suc.prems(1) obtain buf1 where b1: "row_body w d G p q buf = Inr buf1"
    and rest: "lines_n n (row_body w d G) (p + ps) ps (q + qs) qs buf1 = Inr buf'"
    by (auto split: sum.splits)
  from row_body_Inr [OF b1 len] obtain row where ib: "in_buf buf (d p q) w"
    and row: "length row = w" "buf1 = poke buf (d p q) row" by blast
  have "peek buf' a m = peek buf1 a m"
  proof (rule Suc.IH [OF rest])
    fix r assume "r < n"
    then have "Suc r < Suc n" by simp
    from Suc.prems(2) [OF this] show "a + int m \<le> d (p + ps) (q + qs) + int r * ds \<or>
         d (p + ps) (q + qs) + int r * ds + int w \<le> a"
      by (simp add: step algebra_simps)
  qed
  moreover have "peek buf1 a m = peek buf a m"
    unfolding row(2)
    apply (rule peek_poke_other)
    using ib row(1) apply simp
    using a0 apply simp
    using Suc.prems(2) [of 0] row(1) apply simp
    done
  ultimately show ?case by simp
qed

lemma lines_n_rows:
  assumes "lines_n n (row_body w d G) p ps q qs buf = Inr buf'"
    and step: "\<And>p q. d (p + ps) (q + qs) = d p q + ds"
    and len: "keeps_length w G"
    and wide: "int w \<le> \<bar>ds\<bar>"
    and "r < n"
  shows "in_buf buf (d p q + int r * ds) w \<and>
         G (p + int r * ps) (q + int r * qs) (peek buf (d p q + int r * ds) w)
           = Inr (peek buf' (d p q + int r * ds) w)"
  using assms(1) assms(5)
proof (induction n arbitrary: p q buf r)
  case 0
  then show ?case by simp
next
  case (Suc n)
  from Suc.prems(1) obtain buf1 where b1: "row_body w d G p q buf = Inr buf1"
    and rest: "lines_n n (row_body w d G) (p + ps) ps (q + qs) qs buf1 = Inr buf'"
    by (auto split: sum.splits)
  from row_body_Inr [OF b1 len] obtain row where ib: "in_buf buf (d p q) w"
    and g: "G p q (peek buf (d p q) w) = Inr row"
    and row: "length row = w" "buf1 = poke buf (d p q) row" by blast
  have d0: "0 \<le> d p q" using ib by (simp add: in_buf_def)
  show ?case
  proof (cases r)
    case 0
    have "peek buf' (d p q) w = peek buf1 (d p q) w"
    proof (rule lines_n_frame [where d=d and G=G and ds=ds, OF rest step len d0])
      fix k assume "k < n"
      show "d p q + int w \<le> d (p + ps) (q + qs) + int k * ds \<or>
            d (p + ps) (q + qs) + int k * ds + int w \<le> d p q"
        using stride_disjoint [OF wide, of k] by (simp add: step algebra_simps)
    qed
    also have "\<dots> = row"
      unfolding row(2) using peek_poke_same [of buf "d p q" row] ib row(1) by simp
    finally show ?thesis using 0 ib g by simp
  next
    case (Suc r')
    then have r': "r' < n" using Suc.prems(2) by simp
    let ?a = "d (p + ps) (q + qs) + int r' * ds"
    from Suc.IH [OF rest r']
    have ih: "in_buf buf1 ?a w"
      "G (p + ps + int r' * ps) (q + qs + int r' * qs) (peek buf1 ?a w) = Inr (peek buf' ?a w)"
      by auto
    have a_eq: "?a = d p q + int r * ds" using Suc by (simp add: step algebra_simps)
    have ib1: "in_buf buf ?a w"
      using ih(1) in_buf_poke [of buf "d p q" row ?a w] ib row by simp
    have a0: "0 \<le> ?a" using ib1 by (simp add: in_buf_def)
    have "peek buf1 ?a w = peek buf ?a w"
      unfolding row(2)
      apply (rule peek_poke_other)
      using ib row(1) apply simp
      using a0 apply simp
      using stride_disjoint [OF wide, of r'] row(1) apply (simp add: step algebra_simps)
      apply linarith
      done
    then show ?thesis
      using ih ib1 a_eq Suc by (simp add: algebra_simps)
  qed
qed





section \<open>Lemmas on machine integers\<close>

lemma sint_eq_uint_small:
  assumes "uint (w::32 word) < 2^31" shows "sint w = uint w"
proof -
  have "- (2^31) \<le> (0::int)" by simp
  then have "- (2^31) \<le> uint w" using uint_ge_0 [of w] by (rule order_trans)
  then show ?thesis using assms by (simp add: sint_uint signed_take_bit_int_eq_self)
qed


lemma uint_lt_of_unat_lt:
  assumes "unat (w::32 word) < n" shows "uint w < int n"
proof -
  have "int (unat w) < int n" using assms by (rule iffD2 [OF of_nat_less_iff])
  then show ?thesis by (simp only: uint_nat)
qed

lemma end_offset:
  fixes y stride :: "32 word"
  assumes "stride \<noteq> 0" "unat y * unat stride < 2 ^ 31"
  shows "uint (y * stride) = int (unat y) * sint stride"
proof (cases "y = 0")
  case True
  then show ?thesis by simp
next
  case False
  then have y1: "1 \<le> unat y" by (simp add: unat_gt_0 Suc_leI)
  have "unat stride \<le> unat y * unat stride" using y1 by (cases "unat y") simp_all
  then have "unat stride < 2 ^ 31" using assms(2) by (rule le_less_trans)
  then have "uint stride < int (2 ^ 31)" by (rule uint_lt_of_unat_lt)
  then have "uint stride < 2 ^ 31" by simp
  then have s: "sint stride = uint stride" by (rule sint_eq_uint_small)
  have "unat y * unat stride < 2 ^ 32" using assms(2) by simp
  then have "unat y * unat stride < 2 ^ LENGTH(32)" by simp
  then have "unat (y * stride) = unat y * unat stride" by (rule iffD1 [OF unat_mult_lem])
  then have "int (unat (y * stride)) = int (unat y) * int (unat stride)" by simp
  then show ?thesis unfolding s by (simp only: uint_nat)
qed


section \<open>Lemmas on the bitmap conversion\<close>

lemma length_store32 [simp]: "length (store32 row i v) = length row"
  by (simp add: store32_def)

lemma length_copy_24bpp_line [simp]:
  "length (copy_24bpp_line mem src_line src_line_end dest_line drow) = length drow"
proof (induction mem src_line src_line_end dest_line drow rule: copy_24bpp_line.induct)
  case (1 mem src_line src_line_end dest_line drow)
  then show ?case by (subst copy_24bpp_line.simps) simp
qed

lemma length_copy_16bpp_line [simp]:
  "length (copy_16bpp_line mem src_line src_line_end dest_line drow) = length drow"
proof (induction mem src_line src_line_end dest_line drow rule: copy_16bpp_line.induct)
  case (1 mem src_line src_line_end dest_line drow)
  then show ?case by (subst copy_16bpp_line.simps) simp
qed




lemma length_copy_1bpp_be_line [simp]:
  "length (copy_1bpp_be_line mem fore_color back_color src i width dest_line drow) = length drow"
proof (induction mem fore_color back_color src i width dest_line drow
        rule: copy_1bpp_be_line.induct)
  case (1 mem fore_color back_color src i width dest_line drow)
  then show ?case by (subst copy_1bpp_be_line.simps) simp
qed





section \<open>Lemmas on masks and inverse surfaces\<close>

lemma lines_n_succeeds:
  assumes len: "keeps_length w G"
    and step: "\<And>p q. d (p + ps) (q + qs) = d p q + ds"
    and inb: "\<And>r. r < n \<Longrightarrow> in_buf buf (d p q + int r * ds) w"
    and ok: "\<And>r drow. r < n \<Longrightarrow> length drow = w
               \<Longrightarrow> \<exists>row. G (p + int r * ps) (q + int r * qs) drow = Inr row"
  shows "\<exists>buf'. lines_n n (row_body w d G) p ps q qs buf = Inr buf'"
  using inb ok
proof (induction n arbitrary: p q buf)
  case 0
  then show ?case by simp
next
  case (Suc n)
  have ib: "in_buf buf (d p q) w" using Suc.prems(1) [of 0] by simp
  obtain row where g: "G p q (peek buf (d p q) w) = Inr row"
    using Suc.prems(2) [of 0 "peek buf (d p q) w"] length_peek [OF ib] by auto
  have lr: "length row = w"
    using len g length_peek [OF ib] unfolding keeps_length_def by blast
  have b1: "row_body w d G p q buf = Inr (poke buf (d p q) row)"
    using ib g by (simp add: row_body_def on_dest_line_def)
  have "\<exists>buf'. lines_n n (row_body w d G) (p + ps) ps (q + qs) qs (poke buf (d p q) row)
           = Inr buf'"
  proof (rule Suc.IH)
    fix r assume r: "r < n"
    have "in_buf buf (d p q + int (Suc r) * ds) w" using Suc.prems(1) [of "Suc r"] r by simp
    then show "in_buf (poke buf (d p q) row) (d (p + ps) (q + qs) + int r * ds) w"
      using in_buf_poke [of buf "d p q" row] ib lr by (simp add: step algebra_simps)
  next
    fix r and drow :: "uint8_t list" assume r: "r < n" and l: "length drow = w"
    from Suc.prems(2) [of "Suc r" drow] r l
    show "\<exists>row. G (p + ps + int r * ps) (q + qs + int r * qs) drow = Inr row"
      by (simp add: algebra_simps)
  qed
  then show ?case using b1 by simp
qed

lemma for_each_line_rows_gen:
  assumes ps: "ps \<noteq> 0"
    and step: "\<And>p q. d (p + ps) (q + qs) = d p q + ds"
    and len: "keeps_length w G"
    and wide: "int w \<le> \<bar>ds\<bar>"
    and inb: "\<And>r. r < n \<Longrightarrow> in_buf buf (d p q + int r * ds) w"
    and ok: "\<And>r drow. r < n \<Longrightarrow> length drow = w
               \<Longrightarrow> \<exists>row. G (p + int r * ps) (q + int r * qs) drow = Inr row"
  shows "\<exists>buf'. for_each_line (row_body w d G) p (p + int n * ps) ps q qs buf = Some (Inr buf')
           \<and> length buf' = length buf
           \<and> (\<forall>r<n. G (p + int r * ps) (q + int r * qs) (peek buf (d p q + int r * ds) w)
                   = Inr (peek buf' (d p q + int r * ds) w))"
proof -
  from lines_n_succeeds [where d = d and G = G, OF len step inb ok]
  obtain buf' where h: "lines_n n (row_body w d G) p ps q qs buf = Inr buf'" by blast
  have run: "for_each_line (row_body w d G) p (p + int n * ps) ps q qs buf = Some (Inr buf')"
    using for_each_line_unroll [OF ps, of "row_body w d G" p n q qs buf] h by simp
  have l: "length buf' = length buf" using h len by (rule lines_n_length)
  have "G (p + int r * ps) (q + int r * qs) (peek buf (d p q + int r * ds) w)
           = Inr (peek buf' (d p q + int r * ds) w)" if r: "r < n" for r
    using lines_n_rows [where d = d and G = G and ds = ds, OF h step len wide r] by simp
  then show ?thesis using run l by blast
qed

lemma copy_bytes_with_eq:
  "length drow = dest + nat (end - now) \<Longrightarrow>
   copy_bytes_with f mem now end dest drow
     = take dest drow @ map (\<lambda>j. f (mem (now + int j))) [0..<nat (end - now)]"
proof (induction f mem now "end" dest drow rule: copy_bytes_with.induct)
  case (1 f mem now "end" dest drow)
  show ?case
  proof (cases "now < end")
    case False
    then show ?thesis using "1.prems" by (subst copy_bytes_with.simps) simp
  next
    case True
    then obtain k where k: "nat (end - now) = Suc k" "nat (end - (now + 1)) = k"
      by (metis Suc_nat_eq_nat_zadd1 add.commute diff_add_cancel diff_diff_eq diff_ge_0_iff_ge
          less_imp_le zless_imp_add1_zle)
    have l: "length (drow[dest := f (mem now)]) = dest + 1 + nat (end - (now + 1))"
      using "1.prems" k by simp
    have d: "dest < length drow" using "1.prems" k by simp
    have t: "take (dest + 1) (drow[dest := f (mem now)]) = take dest drow @ [f (mem now)]"
      using d by (simp add: take_Suc_conv_app_nth)
    show ?thesis
      apply (subst copy_bytes_with.simps)
      using True apply (simp only: if_True)
      apply (subst "1.IH" [OF True l])
      apply (simp only: t k map_upt_Suc)
      apply (simp add: algebra_simps)
      done
  qed
qed

lemma peek_memory_of:
  assumes "in_buf buf p n"
  shows "map (\<lambda>j. memory_of buf (p + int j)) [0..<n] = peek buf p n"
proof (rule nth_equalityI)
  show "length (map (\<lambda>j. memory_of buf (p + int j)) [0..<n]) = length (peek buf p n)"
    using length_peek [OF assms] by simp
next
  fix i assume "i < length (map (\<lambda>j. memory_of buf (p + int j)) [0..<n])"
  then have i: "i < n" by simp
  have p0: "0 \<le> p" and le: "nat p + n \<le> length buf" using assms by (auto simp: in_buf_def)
  have "nat (p + int i) = nat p + i" using p0 by (simp add: nat_add_distrib)
  then show "map (\<lambda>j. memory_of buf (p + int j)) [0..<n] ! i = peek buf p n ! i"
    using i p0 le by (simp add: memory_of_def peek_def)
qed


lemma length_copy_bytes_with [simp]:
  "length (copy_bytes_with f mem now end dest drow) = length drow"
proof (induction f mem now "end" dest drow rule: copy_bytes_with.induct)
  case (1 f mem now "end" dest drow)
  then show ?case by (subst copy_bytes_with.simps) simp
qed

lemma bit_7_int: "bit (7::int) (n + 3) = False"
proof -
  have e: "(7::int) = mask 3" by (simp add: mask_eq_exp_minus_1)
  show ?thesis by (subst e) (simp add: bit_mask_iff)
qed

lemma align8_int: "drop_bit 3 (ALIGN (w::int) 8) = (w + 7) div 8"
proof -
  have "drop_bit 3 ((w + 7) AND NOT 7) = drop_bit 3 (w + 7)"
    by (rule bit_eqI) (simp add: bit_simps bit_7_int)
  then show ?thesis by (simp add: ALIGN_def drop_bit_eq_div)
qed

lemma stride_A1:
  assumes "0 \<le> w"
  shows "0 \<le> (w + 7) div 8" "(w + 7) div 8 \<le> cairo_format_stride_for_width CAIRO_FORMAT_A1 w"
    "0 \<le> cairo_format_stride_for_width CAIRO_FORMAT_A1 w"
  using assms by (auto simp: cairo_format_stride_for_width_def)

lemma in_buf_rows:
  assumes "0 \<le> ls" "ls \<le> st" "r < n" "length buf = nat (st * int n)"
  shows "in_buf buf (int r * st) (nat ls)"
proof -
  have st0: "0 \<le> st" using assms by simp
  have "int r + 1 \<le> int n" using assms(3) by simp
  then have "st * (int r + 1) \<le> st * int n" using st0 by (rule mult_left_mono)
  then have "int r * st + ls \<le> st * int n" using assms(2) by (simp add: algebra_simps)
  moreover have "0 \<le> int r * st" using st0 by simp
  ultimately show ?thesis
    unfolding in_buf_def using assms(1,4) by (simp add: nat_add_distrib [symmetric] nat_le_iff)
qed

lemma for_each_line_no_rows:
  "for_each_line body p p ps q qs buf = Some (Inr buf)"
  by (subst for_each_line.simps) simp

lemma canvas_A1_invers_unfold:
  assumes "invers = cairo_image_surface_create CAIRO_FORMAT_A1 (surface_width S) (surface_height S)"
  shows "canvas_A1_invers S =
     (if surface_status invers = CAIRO_STATUS_SUCCESS
      then map_option (map_sum id (\<lambda>buf. invers\<lparr>surface_data := buf\<rparr>))
             (for_each_line
                (row_body (nat ((surface_width S + 7) div 8)) (\<lambda>p q. q)
                   (\<lambda>p q. A1_invers_line (surface_data S) ((surface_width S + 7) div 8) p))
                0 (surface_height S * surface_stride S) (surface_stride S) 0
                (surface_stride invers) (surface_data invers))
      else Some (Inr invers))"
  unfolding canvas_A1_invers_def Let_def assms align8_int row_body_def by simp

lemma canvas_A1_invers_rows:
  assumes wf: "cairo_image_surface S" and fmt: "surface_format S = CAIRO_FORMAT_A1"
  shows "\<exists>S1. canvas_A1_invers S = Some (Inr S1) \<and> cairo_image_surface S1
           \<and> surface_format S1 = CAIRO_FORMAT_A1
           \<and> surface_width S1 = surface_width S \<and> surface_height S1 = surface_height S
           \<and> (\<forall>r < nat (surface_height S).
                  surface_row S1 r = map (\<lambda>b. NOT b) (surface_row S r))"
proof -
  let ?w = "surface_width S" and ?h = "surface_height S" and ?st = "surface_stride S"
  let ?ls = "(?w + 7) div 8"
  let ?n = "nat ?h"
  define invers where "invers = cairo_image_surface_create CAIRO_FORMAT_A1 ?w ?h"
  note unf = canvas_A1_invers_unfold [OF invers_def]
  have w0: "0 \<le> ?w" and h0: "0 \<le> ?h"
    and st: "?st = cairo_format_stride_for_width CAIRO_FORMAT_A1 ?w"
    and ld: "length (surface_data S) = nat (?st * int ?n)"
    using wf fmt by (auto simp: cairo_image_surface_def)
  have hn: "?h = int ?n" using h0 by simp
  have inv: "surface_status invers = CAIRO_STATUS_SUCCESS" "surface_format invers = CAIRO_FORMAT_A1"
    "surface_width invers = ?w" "surface_height invers = ?h" "surface_stride invers = ?st"
    "surface_data invers = replicate (nat (?st * int ?n)) 0"
    using w0 h0 st by (simp_all add: invers_def cairo_image_surface_create_def)
  have ls0: "0 \<le> ?ls" and ls_st: "?ls \<le> ?st" and st0: "0 \<le> ?st"
    using stride_A1 [OF w0] st by simp_all
  let ?G = "\<lambda>p (q::int). A1_invers_line (surface_data S) ?ls p"
  let ?body = "row_body (nat ?ls) (\<lambda>p q. q) ?G"
  have len: "keeps_length (nat ?ls) ?G"
    by (auto simp: keeps_length_def A1_invers_line_def split: if_splits)
  have rowlen: "nat ((cairo_format_bits_per_pixel CAIRO_FORMAT_A1 * ?w + 7) div 8) = nat ?ls"
    by simp
  have "\<exists>buf'. for_each_line ?body 0 (?h * ?st) ?st 0 ?st (surface_data invers) = Some (Inr buf')
          \<and> length buf' = length (surface_data invers)
          \<and> (\<forall>r<?n. peek buf' (int r * ?st) (nat ?ls)
                        = map (\<lambda>b. NOT b) (peek (surface_data S) (int r * ?st) (nat ?ls)))"
  proof (cases "?st = 0")
    case True
    then have "nat ?ls = 0" using ls0 ls_st by simp
    then show ?thesis using True by (simp add: for_each_line_no_rows peek_def)
  next
    case False
    have inb: "in_buf (surface_data invers) ((\<lambda>p q. q) (0::int) 0 + int r * ?st) (nat ?ls)"
      if "r < ?n" for r
      using in_buf_rows [OF ls0 ls_st that] inv(6) by simp
    have src_in: "in_buf (surface_data S) (int r * ?st) (nat ?ls)" if "r < ?n" for r
      using in_buf_rows [OF ls0 ls_st that ld] .
    have ok: "\<exists>row. ?G (0 + int r * ?st) (0 + int r * ?st) drow = Inr row"
      if "r < ?n" for r and drow :: "uint8_t list"
      using src_in [OF that] by (simp add: A1_invers_line_def)
    have wide: "int (nat ?ls) \<le> \<bar>?st\<bar>" using ls0 ls_st by simp
    from for_each_line_rows_gen [where d = "\<lambda>p q. q" and G = ?G and p = 0 and q = 0
          and n = ?n and ds = ?st and buf = "surface_data invers",
          OF False _ len wide inb ok]
    obtain buf' where run: "for_each_line ?body 0 (0 + int ?n * ?st) ?st 0 ?st
                              (surface_data invers) = Some (Inr buf')"
      and l: "length buf' = length (surface_data invers)"
      and rows: "\<And>r. r < ?n \<Longrightarrow>
             ?G (0 + int r * ?st) (0 + int r * ?st)
                (peek (surface_data invers) (0 + int r * ?st) (nat ?ls))
               = Inr (peek buf' (0 + int r * ?st) (nat ?ls))"
      by auto
    have "peek buf' (int r * ?st) (nat ?ls)
            = map (\<lambda>b. NOT b) (peek (surface_data S) (int r * ?st) (nat ?ls))"
      if r: "r < ?n" for r
    proof -
      let ?z = "peek (surface_data invers) (int r * ?st) (nat ?ls)"
      have lz: "length ?z = 0 + nat (int r * ?st + ?ls - int r * ?st)"
        using length_peek [OF inb [OF r]] by simp
      have "Inr (peek buf' (int r * ?st) (nat ?ls))
             = A1_invers_line (surface_data S) ?ls (int r * ?st) ?z"
        using rows [OF r] by simp
      also have "\<dots> = Inr (copy_bytes_with (\<lambda>b. NOT b) (memory_of (surface_data S))
                          (int r * ?st) (int r * ?st + ?ls) 0 ?z)"
        using src_in [OF r] by (simp add: A1_invers_line_def)
      also have "\<dots> = Inr (map (\<lambda>j. NOT (memory_of (surface_data S) (int r * ?st + int j)))
                            [0..<nat ?ls])"
        by (subst copy_bytes_with_eq [OF lz]) simp
      also have "\<dots> = Inr (map (\<lambda>b. NOT b) (peek (surface_data S) (int r * ?st) (nat ?ls)))"
        using peek_memory_of [OF src_in [OF r], symmetric] by (simp add: o_def)
      finally show ?thesis by simp
    qed
    then show ?thesis using run l hn by (simp add: mult.commute)
  qed
  then obtain buf' where run: "for_each_line ?body 0 (?h * ?st) ?st 0 ?st (surface_data invers)
                                 = Some (Inr buf')"
    and l: "length buf' = length (surface_data invers)"
    and rows: "\<And>r. r < ?n \<Longrightarrow> peek buf' (int r * ?st) (nat ?ls)
                        = map (\<lambda>b. NOT b) (peek (surface_data S) (int r * ?st) (nat ?ls))"
    by blast
  let ?S1 = "invers\<lparr>surface_data := buf'\<rparr>"
  have res: "canvas_A1_invers S = Some (Inr ?S1)"
    using run inv by (simp add: unf)
  have wf1: "cairo_image_surface ?S1"
    using inv l w0 h0 st by (simp add: cairo_image_surface_def)
  have "surface_row ?S1 r = map (\<lambda>b. NOT b) (surface_row S r)" if "r < ?n" for r
    unfolding surface_row_def using rows [OF that] inv fmt rowlen by simp
  then show ?thesis using res wf1 inv by auto
qed

lemma upt_8: "[0..<8] = [0, 1, 2, 3, 4, 5, 6, 7]"
  by code_simp




lemma length_surf_to_invers_pixels [simp]:
  "length (surf_to_invers_pixels mem src dest end drow) = length drow"
proof (induction mem src dest "end" drow rule: surf_to_invers_pixels.induct)
  case (1 mem src dest "end" drow)
  then show ?case by (subst surf_to_invers_pixels.simps) simp
qed





lemma bit_7_word: "bit (7::32 word) (n + 3) = False"
proof -
  have e: "(7::32 word) = mask 3" by (simp add: mask_eq_exp_minus_1)
  show ?thesis by (subst e) (simp add: bit_mask_iff)
qed

lemma align8_word:
  assumes "unat (x::32 word) < 2 ^ 31 - 8"
  shows "sint (drop_bit 3 (ALIGN x 8)) = (sint x + 7) div 8" and "0 \<le> sint x"
proof -
  have ux: "uint x < 2 ^ 31 - 8" using uint_lt_of_unat_lt [OF assms] by simp
  then have sx: "sint x = uint x" by (intro sint_eq_uint_small) simp
  show "0 \<le> sint x" using sx by simp
  have d: "drop_bit 3 ((x + 7) AND NOT 7) = drop_bit 3 (x + 7)"
  proof (rule bit_eqI)
    fix n
    have "bit ((x + 7) AND NOT 7) (n + 3) = bit (x + 7) (n + 3)"
      unfolding bit_and_iff bit_not_iff bit_7_word by (auto dest: bit_imp_le_length)
    then show "bit (drop_bit 3 ((x + 7) AND NOT 7)) n = bit (drop_bit 3 (x + 7)) n"
      unfolding bit_drop_bit_eq by (simp add: add.commute)
  qed
  have "uint x + uint (7::32 word) < 2 ^ LENGTH(32)" using ux by simp
  then have "uint (x + 7) = uint x + uint (7::32 word)" by (simp only: uint_add_lem)
  then have u7: "uint (x + 7) = uint x + 7" by simp
  have "uint (drop_bit 3 (x + 7)) = uint (x + 7) div 8"
    by (simp add: drop_bit_eq_div uint_div_distrib)
  then have u: "uint (drop_bit 3 (x + 7)) = (uint x + 7) div 8" using u7 by simp
  then have "uint (drop_bit 3 (x + 7)) < 2 ^ 31" using ux by simp
  then have "sint (drop_bit 3 (x + 7)) = uint (drop_bit 3 (x + 7))" by (rule sint_eq_uint_small)
  then show "sint (drop_bit 3 (ALIGN x 8)) = (sint x + 7) div 8"
    using u sx d by (simp add: ALIGN_def)
qed

lemma mask_line_eq:
  assumes "bitmap_format bitmap = BITMAP_FMT_1BIT_LE \<or> bitmap_format bitmap = BITMAP_FMT_1BIT_BE"
    and "length drow = nat ls"
  shows "mask_line bitmap invers ls src drow
           = Inr (map (\<lambda>j. mask_byte (bitmap_format bitmap) invers (bitmap_data bitmap (src + int j)))
                    [0..<nat ls])"
proof -
  have l: "length drow = 0 + nat (src + ls - src)" using assms(2) by simp
  show ?thesis
    using assms(1) copy_bytes_with_eq [OF l]
    by (auto simp: mask_line_def mask_byte_def Let_def)
qed

lemma canvas_get_bitmap_mask_unfold:
  assumes "surface = surface_create CAIRO_FORMAT_A1 (sint (bitmap_x bitmap))
                       (sint (bitmap_y bitmap)) True"
  shows "canvas_get_bitmap_mask bitmap invers =
     (if surface_status surface \<noteq> CAIRO_STATUS_SUCCESS
      then Some (Inl (CANVAS_ERROR ''create surface failed''))
      else if BITMAP_TOP_DOWN \<notin> bitmap_flags bitmap \<and> \<not> bitmap_y bitmap > 0
      then Some (Inl (ASSERT ''bitmap->y > 0''))
      else if bitmap_format bitmap \<noteq> BITMAP_FMT_1BIT_LE
              \<and> bitmap_format bitmap \<noteq> BITMAP_FMT_1BIT_BE
      then Some (Inl (CANVAS_ERROR ''invalid bitmap format''))
      else map_option (map_sum id (\<lambda>buf. surface\<lparr>surface_data := buf\<rparr>))
             (for_each_line
                (row_body (nat (sint (drop_bit 3 (ALIGN (bitmap_x bitmap) 8)))) (\<lambda>p q. q)
                   (\<lambda>p q. mask_line bitmap invers
                             (sint (drop_bit 3 (ALIGN (bitmap_x bitmap) 8))) p))
                0 (uint (bitmap_y bitmap * bitmap_stride bitmap))
                (sint (bitmap_stride bitmap))
                (if BITMAP_TOP_DOWN \<notin> bitmap_flags bitmap
                 then surface_stride surface * (sint (bitmap_y bitmap) - 1) else 0)
                (if BITMAP_TOP_DOWN \<notin> bitmap_flags bitmap
                 then - surface_stride surface else surface_stride surface)
                (surface_data surface)))"
  unfolding canvas_get_bitmap_mask_def Let_def assms row_body_def by simp

lemma canvas_get_bitmap_mask_rows:
  assumes fmt: "bitmap_format bitmap = BITMAP_FMT_1BIT_LE
                \<or> bitmap_format bitmap = BITMAP_FMT_1BIT_BE"
    and st: "bitmap_stride bitmap \<noteq> 0"
    and sz: "unat (bitmap_y bitmap) * unat (bitmap_stride bitmap) < 2 ^ 31"
    and xs: "unat (bitmap_x bitmap) < 2 ^ 31 - 8"
    and td: "BITMAP_TOP_DOWN \<in> bitmap_flags bitmap \<or> bitmap_y bitmap \<noteq> 0"
  shows "\<exists>s. canvas_get_bitmap_mask bitmap invers = Some (Inr s) \<and> cairo_image_surface s
           \<and> surface_format s = CAIRO_FORMAT_A1
           \<and> surface_height s = int (unat (bitmap_y bitmap))
           \<and> (\<forall>r < unat (bitmap_y bitmap).
                 surface_row s (if BITMAP_TOP_DOWN \<in> bitmap_flags bitmap then r
                                else unat (bitmap_y bitmap) - 1 - r)
                 = map (\<lambda>j. mask_byte (bitmap_format bitmap) invers
                              (bitmap_data bitmap (int r * sint (bitmap_stride bitmap) + int j)))
                     [0..<nat ((sint (bitmap_x bitmap) + 7) div 8)])"
proof -
  let ?n = "unat (bitmap_y bitmap)"
  let ?W = "sint (bitmap_x bitmap)"
  let ?H = "sint (bitmap_y bitmap)"
  let ?ss = "sint (bitmap_stride bitmap)"
  let ?ls = "(?W + 7) div 8"
  define surface where "surface = surface_create CAIRO_FORMAT_A1 ?W ?H True"
  note unf = canvas_get_bitmap_mask_unfold [OF surface_def]
  have ls_eq: "sint (drop_bit 3 (ALIGN (bitmap_x bitmap) 8)) = ?ls" and W0: "0 \<le> ?W"
    using align8_word [OF xs] by simp_all
  have end_eq: "uint (bitmap_y bitmap * bitmap_stride bitmap) = 0 + int ?n * ?ss"
    using end_offset [OF st sz] by simp
  have ss: "?ss \<noteq> 0" using st by (simp add: signed_eq_0_iff)
  have "unat (bitmap_stride bitmap) \<noteq> 0" using st by (simp add: unat_eq_0)
  then have "?n \<le> ?n * unat (bitmap_stride bitmap)" by (cases "unat (bitmap_stride bitmap)") simp_all
  then have "?n < 2 ^ 31" using sz by (rule le_less_trans)
  then have "uint (bitmap_y bitmap) < int (2 ^ 31)" by (rule uint_lt_of_unat_lt)
  then have "uint (bitmap_y bitmap) < 2 ^ 31" by simp
  then have "?H = uint (bitmap_y bitmap)" by (rule sint_eq_uint_small)
  then have Hn: "?H = int ?n" by (simp only: uint_nat)
  let ?dst = "cairo_format_stride_for_width CAIRO_FORMAT_A1 ?W"
  have sf: "surface_status surface = CAIRO_STATUS_SUCCESS"
    "surface_format surface = CAIRO_FORMAT_A1" "surface_width surface = ?W"
    "surface_height surface = int ?n" "surface_stride surface = ?dst"
    "surface_data surface = replicate (nat (?dst * int ?n)) 0"
    using W0 Hn by (simp_all add: surface_def surface_create_def cairo_image_surface_create_def)
  have ls0: "0 \<le> ?ls" and ls_st: "?ls \<le> ?dst" and st0: "0 \<le> ?dst"
    using stride_A1 [OF W0] by simp_all
  let ?q = "if BITMAP_TOP_DOWN \<notin> bitmap_flags bitmap then ?dst * (int ?n - 1) else 0"
  let ?qs = "if BITMAP_TOP_DOWN \<notin> bitmap_flags bitmap then - ?dst else ?dst"
  let ?k = "\<lambda>r. if BITMAP_TOP_DOWN \<in> bitmap_flags bitmap then r else ?n - 1 - r"
  let ?G = "\<lambda>p (q::int). mask_line bitmap invers ?ls p"
  let ?body = "row_body (nat ?ls) (\<lambda>p q. q) ?G"
  have off: "?q + int r * ?qs = int (?k r) * ?dst" if "r < ?n" for r
    using that by (auto simp: algebra_simps of_nat_diff)
  have kn: "?k r < ?n" if "r < ?n" for r using that by auto
  have len: "keeps_length (nat ?ls) ?G"
    using fmt by (auto simp: keeps_length_def mask_line_eq)
  have wide: "int (nat ?ls) \<le> \<bar>?qs\<bar>" using ls0 ls_st by simp
  have inb: "in_buf (surface_data surface) ((\<lambda>p q. q) (0::int) ?q + int r * ?qs) (nat ?ls)"
    if "r < ?n" for r
    using in_buf_rows [OF ls0 ls_st kn [OF that], of "surface_data surface"] sf(6) off [OF that]
    by simp
  have ok: "\<exists>row. ?G (0 + int r * ?ss) (?q + int r * ?qs) drow = Inr row"
    if "r < ?n" "length drow = nat ?ls" for r and drow :: "uint8_t list"
    using mask_line_eq [OF fmt that(2)] by simp
  have step: "(\<lambda>p q. q) (p + ?ss) (q + ?qs) = (\<lambda>p q. q) p q + ?qs" for p q :: int by simp
  from for_each_line_rows_gen [where d = "\<lambda>p q. q" and G = ?G and p = 0 and q = ?q
        and n = ?n and ds = ?qs and buf = "surface_data surface", OF ss step len wide inb ok]
  obtain buf' where run: "for_each_line ?body 0 (0 + int ?n * ?ss) ?ss ?q ?qs
                            (surface_data surface) = Some (Inr buf')"
    and l: "length buf' = length (surface_data surface)"
    and rows: "\<And>r. r < ?n \<Longrightarrow>
           ?G (0 + int r * ?ss) (?q + int r * ?qs)
              (peek (surface_data surface) (?q + int r * ?qs) (nat ?ls))
             = Inr (peek buf' (?q + int r * ?qs) (nat ?ls))"
    by auto
  let ?s = "surface\<lparr>surface_data := buf'\<rparr>"
  have noassert: "\<not> (BITMAP_TOP_DOWN \<notin> bitmap_flags bitmap \<and> \<not> bitmap_y bitmap > 0)"
    using td by (auto simp: word_neq_0_conv)
  have res: "canvas_get_bitmap_mask bitmap invers = Some (Inr ?s)"
    unfolding unf ls_eq end_eq using sf noassert fmt run Hn by auto
  have wf: "cairo_image_surface ?s"
    using sf l W0 by (simp add: cairo_image_surface_def)
  have rowlen: "nat ((cairo_format_bits_per_pixel CAIRO_FORMAT_A1 * ?W + 7) div 8) = nat ?ls"
    by simp
  have "surface_row ?s (?k r)
          = map (\<lambda>j. mask_byte (bitmap_format bitmap) invers
                       (bitmap_data bitmap (int r * ?ss + int j))) [0..<nat ?ls]"
    if r: "r < ?n" for r
  proof -
    let ?z = "peek (surface_data surface) (?q + int r * ?qs) (nat ?ls)"
    have lz: "length ?z = nat ?ls" using length_peek [OF inb [OF r]] by simp
    have "Inr (peek buf' (?q + int r * ?qs) (nat ?ls)) = mask_line bitmap invers ?ls (int r * ?ss) ?z"
      using rows [OF r] by simp
    also have "\<dots> = Inr (map (\<lambda>j. mask_byte (bitmap_format bitmap) invers
                       (bitmap_data bitmap (int r * ?ss + int j))) [0..<nat ?ls])"
      by (rule mask_line_eq [OF fmt lz])
    finally have "peek buf' (int (?k r) * ?dst) (nat ?ls)
        = map (\<lambda>j. mask_byte (bitmap_format bitmap) invers
                       (bitmap_data bitmap (int r * ?ss + int j))) [0..<nat ?ls]"
      unfolding off [OF r] by simp
    then show ?thesis
      unfolding surface_row_def using sf rowlen by simp
  qed
  then show ?thesis using res wf sf by auto
qed

lemma all_bytes:
  "(\<forall>b::8 word. P b) \<longleftrightarrow>
     list_all P (map word_of_nat [0..<64]) \<and> list_all P (map word_of_nat [64..<128])
     \<and> list_all P (map word_of_nat [128..<192]) \<and> list_all P (map word_of_nat [192..<256])"
proof
  assume "\<forall>b. P b"
  then show "list_all P (map word_of_nat [0..<64]) \<and> list_all P (map word_of_nat [64..<128])
     \<and> list_all P (map word_of_nat [128..<192]) \<and> list_all P (map word_of_nat [192..<256])"
    by (simp add: list_all_iff)
next
  assume h: "list_all P (map word_of_nat [0..<64]) \<and> list_all P (map word_of_nat [64..<128])
     \<and> list_all P (map word_of_nat [128..<192]) \<and> list_all P (map word_of_nat [192..<256])"
  show "\<forall>b. P b"
  proof
    fix b :: "8 word"
    have "unat b < 256" using unsigned_less [of b, where 'a = nat] by simp
    then have "unat b \<in> {0..<64} \<or> unat b \<in> {64..<128}
               \<or> unat b \<in> {128..<192} \<or> unat b \<in> {192..<256}"
      unfolding atLeastLessThan_iff by linarith
    then have "unat b \<in> set [0..<64] \<or> unat b \<in> set [64..<128]
               \<or> unat b \<in> set [128..<192] \<or> unat b \<in> set [192..<256]"
      unfolding set_upt .
    then have "word_of_nat (unat b) \<in> set (map word_of_nat [0..<64] :: 8 word list)
         \<or> word_of_nat (unat b) \<in> set (map word_of_nat [64..<128] :: 8 word list)
         \<or> word_of_nat (unat b) \<in> set (map word_of_nat [128..<192] :: 8 word list)
         \<or> word_of_nat (unat b) \<in> set (map word_of_nat [192..<256] :: 8 word list)"
      unfolding set_map by blast
    then have "b \<in> set (map word_of_nat [0..<64] :: 8 word list)
         \<or> b \<in> set (map word_of_nat [64..<128] :: 8 word list)
         \<or> b \<in> set (map word_of_nat [128..<192] :: 8 word list)
         \<or> b \<in> set (map word_of_nat [192..<256] :: 8 word list)"
      by (simp del: set_map set_upt)
    then show "P b" using h unfolding list_all_iff by blast
  qed
qed

lemma not_revers_bits: "NOT (revers_bits b) = revers_bits (NOT b)"
proof -
  let ?P = "\<lambda>b. NOT (revers_bits b) = revers_bits (NOT b)"
  have "list_all ?P (map word_of_nat [0..<64])" by code_simp
  moreover have "list_all ?P (map word_of_nat [64..<128])" by code_simp
  moreover have "list_all ?P (map word_of_nat [128..<192])" by code_simp
  moreover have "list_all ?P (map word_of_nat [192..<256])" by code_simp
  ultimately show ?thesis using all_bytes [of ?P] by blast
qed


section \<open>Lemmas on the chunk walk\<close>

lemma more_space_call_at_end:
  "quic_next quic_data = 0 \<Longrightarrow>
   more_space_call GET_ADDRESS chunks quic_data n = (0, None, quic_data)"
  by (induction n) (simp_all add: quic_usr_more_space_def)

lemma quic_read_words_add:
  "quic_read_words GET_ADDRESS chunks (m + n) input =
     (case quic_read_words GET_ADDRESS chunks m input of
        Inl e \<Rightarrow> Inl e
      | Inr (w, input') \<Rightarrow>
          (case quic_read_words GET_ADDRESS chunks n input' of
             Inl e \<Rightarrow> Inl e
           | Inr (rest, input'') \<Rightarrow> Inr (w @ rest, input'')))"
proof (induction m arbitrary: input)
  case 0
  then show ?case by (auto split: sum.splits)
next
  case (Suc m)
  show ?case
    by (cases "quic_read_word GET_ADDRESS chunks input")
       (auto simp: Suc.IH split: sum.splits prod.splits)
qed

lemma quic_read_words_exhausted:
  "quic_next quic_data = 0 \<Longrightarrow>
   quic_read_words GET_ADDRESS chunks (Suc n) ([], quic_data) = Inl (CANVAS_ERROR ''quic error'')"
  by (simp add: quic_read_word_def quic_usr_more_space_def)

lemma quic_chunks_read:
  assumes c0: "chunks first_chunk
                 = \<lparr> chunk_size = 8, chunk_prev = p0, chunk_next = a1, chunk_data = d0 \<rparr>"
    and c1: "chunks (GET_ADDRESS (a1 + delta))
                 = \<lparr> chunk_size = 4, chunk_prev = p1, chunk_next = 0, chunk_data = d1 \<rparr>"
    and a1: "a1 \<noteq> 0" and l0: "length d0 = 8" and l1: "length d1 = 4"
  shows "quic_read_words GET_ADDRESS chunks 3 (quic_input chunks delta first_chunk)
           = Inr (d0 @ d1, ([], \<lparr> quic_next = 0, quic_address_delta = delta \<rparr>))"
    and "quic_read_words GET_ADDRESS chunks 2 (quic_input chunks delta first_chunk)
           = Inr (d0, ([], \<lparr> quic_next = a1, quic_address_delta = delta \<rparr>))"
    and "quic_read_words GET_ADDRESS chunks 1 (quic_input chunks delta first_chunk)
           = Inr (take 4 d0, (drop 4 d0, \<lparr> quic_next = a1, quic_address_delta = delta \<rparr>))"
proof -
  have i: "quic_input chunks delta first_chunk
             = (d0, \<lparr> quic_next = a1, quic_address_delta = delta \<rparr>)"
    using c0 l0 by (simp add: quic_input_def canvas_get_quic_input_def)
  have d: "take 4 d0 @ take 4 (drop 4 d0) = d0"
    using l0 take_add [of 4 4 d0] by simp
  have r1: "quic_read_word GET_ADDRESS chunks (d0, \<lparr> quic_next = a1, quic_address_delta = delta \<rparr>)
              = Inr (take 4 d0, (drop 4 d0, \<lparr> quic_next = a1, quic_address_delta = delta \<rparr>))"
    using l0 by (simp add: quic_read_word_def)
  have r2: "quic_read_word GET_ADDRESS chunks
              (drop 4 d0, \<lparr> quic_next = a1, quic_address_delta = delta \<rparr>)
              = Inr (take 4 (drop 4 d0), ([], \<lparr> quic_next = a1, quic_address_delta = delta \<rparr>))"
    using l0 by (simp add: quic_read_word_def)
  have r3: "quic_read_word GET_ADDRESS chunks ([], \<lparr> quic_next = a1, quic_address_delta = delta \<rparr>)
              = Inr (d1, ([], \<lparr> quic_next = 0, quic_address_delta = delta \<rparr>))"
    using a1 c1 l1 by (simp add: quic_read_word_def quic_usr_more_space_def)
  show "quic_read_words GET_ADDRESS chunks 1 (quic_input chunks delta first_chunk)
           = Inr (take 4 d0, (drop 4 d0, \<lparr> quic_next = a1, quic_address_delta = delta \<rparr>))"
    unfolding i by (simp add: r1)
  show "quic_read_words GET_ADDRESS chunks 2 (quic_input chunks delta first_chunk)
           = Inr (d0, ([], \<lparr> quic_next = a1, quic_address_delta = delta \<rparr>))"
    unfolding i by (simp add: numeral_2_eq_2 r1 r2 d)
  show "quic_read_words GET_ADDRESS chunks 3 (quic_input chunks delta first_chunk)
           = Inr (d0 @ d1, ([], \<lparr> quic_next = 0, quic_address_delta = delta \<rparr>))"
    unfolding i using d by (simp add: numeral_3_eq_3 r1 r2 r3)
qed

section \<open>Lemmas on surface objects\<close>

lemma canvas_get_bitmap_mask_fresh:
  assumes "canvas_get_bitmap_mask bitmap invers = Some (Inr s)"
  shows "surface_user_data s = None \<and> surface_ref_count s = 1"
proof -
  define surface where
    "surface = surface_create CAIRO_FORMAT_A1 (sint (bitmap_x bitmap)) (sint (bitmap_y bitmap)) True"
  have u: "surface_user_data surface = None" "surface_ref_count surface = 1"
    by (simp_all add: surface_def surface_create_def cairo_image_surface_create_def)
  from assms have "\<exists>z :: error + uint8_t list. map_sum id (\<lambda>buf. surface\<lparr>surface_data := buf\<rparr>) z = Inr s"
    unfolding canvas_get_bitmap_mask_def Let_def surface_def [symmetric]
    by (auto split: if_splits)
  then obtain z :: "error + uint8_t list" where z: "map_sum id (\<lambda>buf. surface\<lparr>surface_data := buf\<rparr>) z = Inr s" ..
  then show ?thesis using u by (cases z) auto
qed



lemma canvas_A1_invers_ref_count:
  "canvas_A1_invers (s\<lparr> surface_ref_count := r \<rparr>) = canvas_A1_invers s"
  unfolding canvas_A1_invers_def by (simp add: Let_def)

lemma canvas_A1_invers_fresh:
  assumes "canvas_A1_invers s = Some (Inr inv_s)"
  shows "surface_user_data inv_s = None \<and> surface_ref_count inv_s = 1"
proof -
  define invers where
    "invers = cairo_image_surface_create CAIRO_FORMAT_A1 (surface_width s) (surface_height s)"
  have u: "surface_user_data invers = None" "surface_ref_count invers = 1"
    by (simp_all add: invers_def cairo_image_surface_create_def)
  from assms have "(\<exists>z :: error + uint8_t list.
        map_sum id (\<lambda>buf. invers\<lparr>surface_data := buf\<rparr>) z = Inr inv_s) \<or> inv_s = invers"
    unfolding canvas_A1_invers_def Let_def invers_def [symmetric]
    by (auto split: if_splits)
  then show ?thesis
  proof
    assume "\<exists>z :: error + uint8_t list.
        map_sum id (\<lambda>buf. invers\<lparr>surface_data := buf\<rparr>) z = Inr inv_s"
    then obtain z :: "error + uint8_t list"
      where z: "map_sum id (\<lambda>buf. invers\<lparr>surface_data := buf\<rparr>) z = Inr inv_s" ..
    then show ?thesis using u by (cases z) auto
  next
    assume "inv_s = invers" then show ?thesis using u by simp
  qed
qed

section \<open>Lemmas on concurrent requests for the inverse\<close>


lemma get_user_data_reference [simp]:
  "cairo_surface_get_user_data (cairo_surface_reference h q) p = cairo_surface_get_user_data h p"
  unfolding cairo_surface_get_user_data_def cairo_surface_reference_def
  by (cases "surfaces h q") auto

lemma next_surface_reference [simp]:
  "next_surface (cairo_surface_reference h q) = next_surface h"
  unfolding cairo_surface_reference_def by (cases "surfaces h q") auto



lemma next_surface_set_user_data [simp]:
  "next_surface (snd (cairo_surface_set_user_data h q a)) = next_surface h"
  unfolding cairo_surface_set_user_data_def by (cases "surfaces h q") auto





lemma next_surface_new_surface [simp]:
  "next_surface (snd (new_surface x h)) = Suc (next_surface h)"
  unfolding new_surface_def by simp

lemma in_hand_eq_Some:
  "in_hand c = Some q \<longleftrightarrow> c = AT_ATTACH q \<or> c = RETURNED q"
  by (cases c) auto









lemma inverse_steps_sequential:
  assumes "calls i = AT_LOOKUP"
    and "canvas_handle_inverse_user_data h S = Some (Inr (q, h'))"
  shows "run_schedule S [i, i, i] (calls, h) = Some (calls(i := RETURNED q), h')"
  using assms unfolding canvas_handle_inverse_user_data_def
  by (auto simp: inverse_step_def split: option.splits sum.splits)



section \<open>Claims\<close>

text \<open>
  Claim C5. \<^verbatim>\<open>canvas_16bpp_to_32bpp\<close> expands the three packed components of a 16-bit
  pixel independently and ORs them into the 32-bit result: the components are the 5-bit
  fields at bits 0, 5 and 10 (\<open>n = 5\<close> for each), each mapped to the 8-bit value
  \<^verbatim>\<open>(c << (8-n)) | (c >> (2n-8))\<close> and placed at bits 0, 8 and 16. Over all \<open>2^5\<close>
  component values the mapping is strictly monotonic and injective, and its values fit in
  8 bits.
\<close>

theorem canvas_16bpp_to_32bpp_expansion:
  "canvas_16bpp_to_32bpp color =
     spec_expand_component 5 (color AND 0x1f)
     OR push_bit 8 (spec_expand_component 5 (drop_bit 5 color AND 0x1f))
     OR push_bit 16 (spec_expand_component 5 (drop_bit 10 color AND 0x1f))
   \<and> (\<forall>c d. c < 32 \<and> d < 32 \<and> c < d
          \<longrightarrow> spec_expand_component 5 c < spec_expand_component 5 d)
   \<and> inj_on (spec_expand_component 5) {c. c < 32}
   \<and> (\<forall>c. c < 32 \<longrightarrow> spec_expand_component 5 c \<le> 0xff)"
proof -
  have mono: "spec_expand_component 5 c < spec_expand_component 5 d"
    if "c < 32" "d < 32" "c < d" for c d :: "32 word"
  proof -
    have "unat c < unat d" using that(3) by (simp add: word_less_nat_alt)
    then have "unat c * 8 + unat c div 4 < unat d * 8 + unat d div 4"
      by (simp add: add_less_le_mono div_le_mono)
    then show ?thesis
      using spec_expand_5_unat [OF that(1)] spec_expand_5_unat [OF that(2)]
      by (simp add: word_less_nat_alt)
  qed
  have inj: "inj_on (spec_expand_component 5) {c. c < 32}"
  proof (rule inj_onI)
    fix c d :: "32 word"
    assume cd: "c \<in> {c. c < 32}" "d \<in> {c. c < 32}"
      and eq: "spec_expand_component 5 c = spec_expand_component 5 d"
    show "c = d"
    proof (rule ccontr)
      assume "c \<noteq> d"
      then have "c < d \<or> d < c" by (rule linorder_neqE) simp_all
      then show False using mono [of c d] mono [of d c] cd eq by auto
    qed
  qed
  have bound: "spec_expand_component 5 c \<le> 0xff" if "c < 32" for c :: "32 word"
  proof -
    have "unat c < 32" using that by (simp add: word_less_nat_alt)
    then have "unat c * 8 + unat c div 4 \<le> 255" by simp
    then show ?thesis using spec_expand_5_unat [OF that] by (simp add: word_le_nat_alt)
  qed
  show ?thesis
    using canvas_16bpp_to_32bpp_components mono inj bound by blast
qed

theorem canvas_16bpp_to_32bpp_expansion_witness:
  "canvas_16bpp_to_32bpp 0x7c1f = 0xff00ff
   \<and> spec_expand_component 5 3 < spec_expand_component 5 4
   \<and> spec_expand_component 5 31 = 0xff"
proof -
  have a: "canvas_16bpp_to_32bpp 0x7c1f = 0xff00ff"
    using canvas_16bpp_to_32bpp_expansion [of "0x7c1f"]
    by (simp add: spec_expand_component_def)
  have "(3::32 word) < 32 \<and> (4::32 word) < 32 \<and> (3::32 word) < 4" by simp
  then have b: "spec_expand_component 5 3 < spec_expand_component 5 4"
    using canvas_16bpp_to_32bpp_expansion [of 0] by blast
  have c: "spec_expand_component 5 31 = 0xff"
    by (simp add: spec_expand_component_def)
  show ?thesis using a b c by simp
qed

text \<open>
  Claim C1 says that on an odd width the last pixel of a 4-bit row takes the palette entry
  selected by the high nibble of the row's trailing data byte. The code reads that nibble
  through \<^verbatim>\<open>src\<close>, the first byte of the row, not through \<^verbatim>\<open>now\<close>. On the row
  \<open>0x12 0x30\<close> of width 3 with \<open>ents[i] = 0x100 + i\<close> the three pixels come out as
  \<open>ents[1], ents[2], ents[1]\<close>: the last pixel is selected by the high nibble of
  \<open>0x12\<close>, while the trailing byte \<open>0x30\<close> selects \<open>ents[3]\<close>.
\<close>

theorem canvas_copy_4bpp_be_odd_width_reads_first_byte:
  "(case canvas_bitmap_to_surface bitmap_4bpp_3x1 (Some palette_16) of
      Some (Inr s) \<Rightarrow>
        map (load32 (surface_row s 0)) [0, 1, 2] = [0x101, 0x102, 0x101]
        \<and> load32 (surface_row s 0) 2
            = ents palette_16 (unat (drop_bit 4 (bitmap_data bitmap_4bpp_3x1 0) AND 0x0f))
        \<and> load32 (surface_row s 0) 2
            \<noteq> ents palette_16 (unat (drop_bit 4 (bitmap_data bitmap_4bpp_3x1 1) AND 0x0f))
    | _ \<Rightarrow> False)"
  by code_simp




text \<open>
  Claim C2 says that an indexed decode fails whenever a referenced palette index is not
  below \<open>num_ents\<close>. The 8-bit loop and the pair loop of the 4-bit path assert it, but the
  1-bit path reads \<^verbatim>\<open>ents[1]\<close> and \<^verbatim>\<open>ents[0]\<close> with no check, and the 4-bit path does
  not check the nibble of an odd width. With a palette of one entry, the 1-bit bitmap
  with its bit set (index 1) and the 4-bit bitmap of the single index 15 both decode to a
  surface whose pixel is the word found behind the palette; the 8-bit bitmap of index 1
  fails on its assertion.
\<close>

theorem indexed_decode_out_of_range_index:
  "(case canvas_bitmap_to_surface bitmap_1bpp_1x1 (Some palette_1) of
      Some (Inr s) \<Rightarrow>
        \<not> 1 < unat (num_ents palette_1) \<and> load32 (surface_row s 0) 0 = ents palette_1 1
    | _ \<Rightarrow> False)
   \<and> (case canvas_bitmap_to_surface bitmap_4bpp_1x1 (Some palette_1) of
      Some (Inr s) \<Rightarrow>
        \<not> 15 < unat (num_ents palette_1) \<and> load32 (surface_row s 0) 0 = ents palette_1 15
    | _ \<Rightarrow> False)
   \<and> canvas_bitmap_to_surface bitmap_8bpp_1x1 (Some palette_1)
       = Some (Inl (ASSERT ''*src_line < palette->num_ents''))"
  by code_simp




text \<open>
  Claim C3 says that a palette resolved with \<open>CacheMe\<close> is localized on a private copy and
  that the caller's inline buffer is left unchanged. The code localizes through the
  pointer into the caller's buffer and returns that pointer: in 16-bit mode the inline
  palette \<open>0x001f, 0x7c00\<close> at address \<open>0x1000\<close> reads \<open>0x0000ff, 0xff0000\<close> after
  the call, and the pointer returned is \<open>0x1000\<close> itself. (The build without the
  palette cache does copy the palette before localizing it.)
\<close>

theorem canvas_get_palett_cache_me_localizes_in_place:
  "fst (canvas_get_palett id id canvas_16bit 0x1000 {BITMAP_PAL_CACHE_ME}) = Some 0x1000
   \<and> map (ents (palettes canvas_16bit 0x1000)) [0, 1] = [0x001f, 0x7c00]
   \<and> map (ents (palettes
                   (snd (canvas_get_palett id id canvas_16bit 0x1000 {BITMAP_PAL_CACHE_ME}))
                   0x1000)) [0, 1]
       = [0x0000ff, 0xff0000]"
  by code_simp

text \<open>
  Claim C8. For every byte, the complement of the bit-reversed byte is the bit-reversal of
  the complemented byte. For every 1-bit big-endian bitmap (the format whose bits are
  reversed) with a nonzero stride and sizes within range, the mask built in one pass with
  inversion requested (\<^verbatim>\<open>~revers_bits\<close> on each byte) holds, row by row, the same
  pixel bytes as the two passes: the mask built without inversion (\<^verbatim>\<open>revers_bits\<close>)
  followed by the complement pass \<^verbatim>\<open>canvas_A1_invers\<close>.
\<close>

theorem bitmap_mask_fused_invers:
  "(\<forall>b. NOT (revers_bits b) = revers_bits (NOT b))
   \<and> (bitmap_format bitmap = BITMAP_FMT_1BIT_BE \<and> bitmap_stride bitmap \<noteq> 0
        \<and> unat (bitmap_y bitmap) * unat (bitmap_stride bitmap) < 2 ^ 31
        \<and> unat (bitmap_x bitmap) < 2 ^ 31 - 8
        \<and> (BITMAP_TOP_DOWN \<in> bitmap_flags bitmap \<or> bitmap_y bitmap \<noteq> 0)
      \<longrightarrow> (\<exists>fused plain two_pass.
             canvas_get_bitmap_mask bitmap True = Some (Inr fused)
             \<and> canvas_get_bitmap_mask bitmap False = Some (Inr plain)
             \<and> canvas_A1_invers plain = Some (Inr two_pass)
             \<and> (\<forall>k < unat (bitmap_y bitmap). surface_row fused k = surface_row two_pass k)))"
proof (intro conjI impI allI)
  fix b show "NOT (revers_bits b) = revers_bits (NOT b)" by (rule not_revers_bits)
next
  let ?n = "unat (bitmap_y bitmap)"
  let ?k = "\<lambda>r. if BITMAP_TOP_DOWN \<in> bitmap_flags bitmap then r else ?n - 1 - r"
  let ?src = "\<lambda>r j. bitmap_data bitmap (int r * sint (bitmap_stride bitmap) + int j)"
  let ?ls = "nat ((sint (bitmap_x bitmap) + 7) div 8)"
  assume h: "bitmap_format bitmap = BITMAP_FMT_1BIT_BE \<and> bitmap_stride bitmap \<noteq> 0
        \<and> unat (bitmap_y bitmap) * unat (bitmap_stride bitmap) < 2 ^ 31
        \<and> unat (bitmap_x bitmap) < 2 ^ 31 - 8
        \<and> (BITMAP_TOP_DOWN \<in> bitmap_flags bitmap \<or> bitmap_y bitmap \<noteq> 0)"
  then have fmt: "bitmap_format bitmap = BITMAP_FMT_1BIT_LE
                  \<or> bitmap_format bitmap = BITMAP_FMT_1BIT_BE"
    and be: "bitmap_format bitmap = BITMAP_FMT_1BIT_BE"
    and st: "bitmap_stride bitmap \<noteq> 0"
    and sz: "unat (bitmap_y bitmap) * unat (bitmap_stride bitmap) < 2 ^ 31"
    and xs: "unat (bitmap_x bitmap) < 2 ^ 31 - 8"
    and td: "BITMAP_TOP_DOWN \<in> bitmap_flags bitmap \<or> bitmap_y bitmap \<noteq> 0"
    by simp_all
  from canvas_get_bitmap_mask_rows [OF fmt st sz xs td, of True]
  obtain fused where f: "canvas_get_bitmap_mask bitmap True = Some (Inr fused)"
    and fr: "\<And>r. r < ?n \<Longrightarrow> surface_row fused (?k r)
               = map (\<lambda>j. mask_byte (bitmap_format bitmap) True (?src r j)) [0..<?ls]"
    by blast
  from canvas_get_bitmap_mask_rows [OF fmt st sz xs td, of False]
  obtain plain where p: "canvas_get_bitmap_mask bitmap False = Some (Inr plain)"
    and pw: "cairo_image_surface plain" "surface_format plain = CAIRO_FORMAT_A1"
      "surface_height plain = int ?n"
    and pr: "\<And>r. r < ?n \<Longrightarrow> surface_row plain (?k r)
               = map (\<lambda>j. mask_byte (bitmap_format bitmap) False (?src r j)) [0..<?ls]"
    by blast
  from canvas_A1_invers_rows [OF pw(1) pw(2)]
  obtain two_pass where t: "canvas_A1_invers plain = Some (Inr two_pass)"
    and tr: "\<And>r. r < nat (surface_height plain)
               \<Longrightarrow> surface_row two_pass r = map (\<lambda>b. NOT b) (surface_row plain r)"
    by blast
  have "surface_row fused k = surface_row two_pass k" if k: "k < ?n" for k
  proof -
    have r: "?k k < ?n" using k by auto
    have kk: "?k (?k k) = k" using k by auto
    have "surface_row two_pass k = map (\<lambda>b. NOT b) (surface_row plain k)"
      using tr [of k] k pw(3) by simp
    also have "surface_row plain k
                 = map (\<lambda>j. mask_byte (bitmap_format bitmap) False (?src (?k k) j)) [0..<?ls]"
      using pr [OF r] unfolding kk .
    also have "map (\<lambda>b. NOT b) \<dots>
                 = map (\<lambda>j. mask_byte (bitmap_format bitmap) True (?src (?k k) j)) [0..<?ls]"
      using be by (simp add: mask_byte_def o_def)
    also have "\<dots> = surface_row fused k"
      using fr [OF r] unfolding kk by simp
    finally show ?thesis by simp
  qed
  then show "\<exists>fused plain two_pass.
             canvas_get_bitmap_mask bitmap True = Some (Inr fused)
             \<and> canvas_get_bitmap_mask bitmap False = Some (Inr plain)
             \<and> canvas_A1_invers plain = Some (Inr two_pass)
             \<and> (\<forall>k < unat (bitmap_y bitmap). surface_row fused k = surface_row two_pass k)"
    using f p t by blast
qed

theorem bitmap_mask_fused_invers_witness:
  "bitmap_format bitmap_1bpp_9x2 = BITMAP_FMT_1BIT_BE \<and> bitmap_stride bitmap_1bpp_9x2 \<noteq> 0
   \<and> unat (bitmap_y bitmap_1bpp_9x2) * unat (bitmap_stride bitmap_1bpp_9x2) < 2 ^ 31
   \<and> unat (bitmap_x bitmap_1bpp_9x2) < 2 ^ 31 - 8
   \<and> (BITMAP_TOP_DOWN \<in> bitmap_flags bitmap_1bpp_9x2 \<or> bitmap_y bitmap_1bpp_9x2 \<noteq> 0)
   \<and> NOT (revers_bits 0x01) = revers_bits (NOT 0x01)
   \<and> (\<exists>fused plain two_pass.
         canvas_get_bitmap_mask bitmap_1bpp_9x2 True = Some (Inr fused)
         \<and> canvas_get_bitmap_mask bitmap_1bpp_9x2 False = Some (Inr plain)
         \<and> canvas_A1_invers plain = Some (Inr two_pass)
         \<and> surface_row fused 0 = surface_row two_pass 0
         \<and> surface_row fused 1 = surface_row two_pass 1)"
proof -
  have h: "bitmap_format bitmap_1bpp_9x2 = BITMAP_FMT_1BIT_BE
        \<and> bitmap_stride bitmap_1bpp_9x2 \<noteq> 0
        \<and> unat (bitmap_y bitmap_1bpp_9x2) * unat (bitmap_stride bitmap_1bpp_9x2) < 2 ^ 31
        \<and> unat (bitmap_x bitmap_1bpp_9x2) < 2 ^ 31 - 8
        \<and> (BITMAP_TOP_DOWN \<in> bitmap_flags bitmap_1bpp_9x2 \<or> bitmap_y bitmap_1bpp_9x2 \<noteq> 0)"
    by (simp add: bitmap_1bpp_9x2_def)
  have y: "unat (bitmap_y bitmap_1bpp_9x2) = 2" by (simp add: bitmap_1bpp_9x2_def)
  from bitmap_mask_fused_invers [of bitmap_1bpp_9x2] h
  have nb: "NOT (revers_bits 0x01) = revers_bits (NOT 0x01)"
    and ex: "\<exists>fused plain two_pass.
             canvas_get_bitmap_mask bitmap_1bpp_9x2 True = Some (Inr fused)
             \<and> canvas_get_bitmap_mask bitmap_1bpp_9x2 False = Some (Inr plain)
             \<and> canvas_A1_invers plain = Some (Inr two_pass)
             \<and> (\<forall>k < unat (bitmap_y bitmap_1bpp_9x2).
                    surface_row fused k = surface_row two_pass k)"
    by blast+
  from ex obtain fused plain two_pass where
    r: "canvas_get_bitmap_mask bitmap_1bpp_9x2 True = Some (Inr fused)"
       "canvas_get_bitmap_mask bitmap_1bpp_9x2 False = Some (Inr plain)"
       "canvas_A1_invers plain = Some (Inr two_pass)"
    and rows: "\<And>k. k < unat (bitmap_y bitmap_1bpp_9x2)
                 \<Longrightarrow> surface_row fused k = surface_row two_pass k"
    by blast
  have "surface_row fused 0 = surface_row two_pass 0" "surface_row fused 1 = surface_row two_pass 1"
    using rows [of 0] rows [of 1] y by simp_all
  then show ?thesis using h nb r by blast
qed

text \<open>
  Claim C7. Let the chunk list be \<open>C0\<close> (size 8, next \<open>a1\<close>) followed by \<open>C1\<close> (size 4,
  next null), \<open>C0\<close> being the chunk the image points at and \<open>C1\<close> the chunk at the local
  address of \<open>a1 + delta\<close>. Then \<^verbatim>\<open>canvas_get_quic\<close> starts the decode on the 8 bytes of
  \<open>C0\<close> (2 words) with \<open>next = a1\<close> and the session delta; the first \<^verbatim>\<open>more_space\<close> call
  returns 1 word and the 4 bytes of \<open>C1\<close>; every later call returns 0 words and no
  data. A reader of the input gets the 12 bytes of \<open>C0\<close> then \<open>C1\<close> in order, each once,
  over its first three words, and an error, not a shorter stream, as soon as it asks for
  more.
\<close>

theorem quic_chunk_walk:
  assumes c0: "chunks first_chunk
                 = \<lparr> chunk_size = 8, chunk_prev = p0, chunk_next = a1, chunk_data = d0 \<rparr>"
    and c1: "chunks (GET_ADDRESS (a1 + delta))
                 = \<lparr> chunk_size = 4, chunk_prev = p1, chunk_next = 0, chunk_data = d1 \<rparr>"
    and a1: "a1 \<noteq> 0" and l0: "length d0 = 8" and l1: "length d1 = 4"
  shows "canvas_get_quic_input chunks delta first_chunk
           = (\<lparr> quic_next = a1, quic_address_delta = delta \<rparr>, d0, 2)
       \<and> more_space_call GET_ADDRESS chunks \<lparr> quic_next = a1, quic_address_delta = delta \<rparr> 0
           = (1, Some d1, \<lparr> quic_next = 0, quic_address_delta = delta \<rparr>)
       \<and> (\<forall>n. more_space_call GET_ADDRESS chunks
                  \<lparr> quic_next = a1, quic_address_delta = delta \<rparr> (Suc n)
                = (0, None, \<lparr> quic_next = 0, quic_address_delta = delta \<rparr>))
       \<and> (\<forall>k \<le> 3. \<exists>rest. quic_read_words GET_ADDRESS chunks k
                              (quic_input chunks delta first_chunk)
                            = Inr (take (4 * k) (d0 @ d1), rest))
       \<and> (\<forall>k > 3. quic_read_words GET_ADDRESS chunks k (quic_input chunks delta first_chunk)
                     = Inl (CANVAS_ERROR ''quic error''))"
proof (intro conjI allI impI)
  let ?qd = "\<lparr> quic_next = a1, quic_address_delta = delta \<rparr>"
  let ?qe = "\<lparr> quic_next = 0, quic_address_delta = delta \<rparr>"
  let ?in = "quic_input chunks delta first_chunk"
  note rd = quic_chunks_read
    [where chunks = chunks and first_chunk = first_chunk and GET_ADDRESS = GET_ADDRESS
       and delta = delta, OF c0 c1 a1 l0 l1]
  show "canvas_get_quic_input chunks delta first_chunk = (?qd, d0, 2)"
    using c0 by (simp add: canvas_get_quic_input_def)
  have first: "quic_usr_more_space GET_ADDRESS chunks ?qd = (1, Some d1, ?qe)"
    using a1 c1 by (simp add: quic_usr_more_space_def)
  then show "more_space_call GET_ADDRESS chunks ?qd 0 = (1, Some d1, ?qe)" by simp
  show "more_space_call GET_ADDRESS chunks ?qd (Suc n) = (0, None, ?qe)" for n
    using first more_space_call_at_end [of ?qe GET_ADDRESS chunks n] by simp
  show "\<exists>rest. quic_read_words GET_ADDRESS chunks k ?in = Inr (take (4 * k) (d0 @ d1), rest)"
    if "k \<le> 3" for k
  proof -
    from that consider "k = 0" | "k = 1" | "k = 2" | "k = 3" by linarith
    then show ?thesis
    proof cases
      case 1 then show ?thesis by simp
    next
      case 2 then show ?thesis using rd(3) l0 by simp
    next
      case 3 then show ?thesis using rd(2) l0 by simp
    next
      case 4 then show ?thesis using rd(1) l0 l1 by simp
    qed
  qed
  show "quic_read_words GET_ADDRESS chunks k ?in = Inl (CANVAS_ERROR ''quic error'')"
    if "3 < k" for k
  proof -
    from that obtain j where k: "k = 3 + Suc j"
      by (metis add_Suc_right less_iff_Suc_add)
    show ?thesis
      unfolding k quic_read_words_add rd(1)
      using quic_read_words_exhausted [of ?qe GET_ADDRESS chunks j] by simp
  qed
qed

theorem quic_chunk_walk_witness:
  "chunk_memory 0x2000 = \<lparr> chunk_size = 8, chunk_prev = 0, chunk_next = 0x40,
                            chunk_data = [1, 2, 3, 4, 5, 6, 7, 8] \<rparr>
   \<and> chunk_memory (id (0x40 + 0x3000))
       = \<lparr> chunk_size = 4, chunk_prev = 0, chunk_next = 0, chunk_data = [9, 10, 11, 12] \<rparr>
   \<and> (0x40 :: ADDRESS) \<noteq> 0
   \<and> length [1, 2, 3, 4, 5, 6, 7, 8 :: uint8_t] = 8 \<and> length [9, 10, 11, 12 :: uint8_t] = 4
   \<and> fst (more_space_call id chunk_memory \<lparr> quic_next = 0x40, quic_address_delta = 0x3000 \<rparr> 0)
       = 1
   \<and> fst (more_space_call id chunk_memory \<lparr> quic_next = 0x40, quic_address_delta = 0x3000 \<rparr> 1)
       = 0
   \<and> (\<exists>rest. quic_read_words id chunk_memory 3 (quic_input chunk_memory 0x3000 0x2000)
               = Inr ([1, 2, 3, 4, 5, 6, 7, 8, 9, 10, 11, 12], rest))
   \<and> quic_read_words id chunk_memory 4 (quic_input chunk_memory 0x3000 0x2000)
       = Inl (CANVAS_ERROR ''quic error'')"
proof -
  have c0: "chunk_memory 0x2000 = \<lparr> chunk_size = 8, chunk_prev = 0, chunk_next = 0x40,
                                     chunk_data = [1, 2, 3, 4, 5, 6, 7, 8] \<rparr>"
    by (simp add: chunk_memory_def chunk_C0_def)
  have c1: "chunk_memory (id (0x40 + 0x3000))
              = \<lparr> chunk_size = 4, chunk_prev = 0, chunk_next = 0,
                  chunk_data = [9, 10, 11, 12] \<rparr>"
    by (simp add: chunk_memory_def chunk_C1_def)
  have a1: "(0x40 :: ADDRESS) \<noteq> 0" by simp
  have l0: "length [1, 2, 3, 4, 5, 6, 7, 8 :: uint8_t] = 8" by simp
  have l1: "length [9, 10, 11, 12 :: uint8_t] = 4" by simp
  note w = quic_chunk_walk
    [where chunks = chunk_memory and first_chunk = "0x2000" and GET_ADDRESS = id
       and delta = "0x3000", OF c0 c1 a1 l0 l1]
  have m0: "fst (more_space_call id chunk_memory
                   \<lparr> quic_next = 0x40, quic_address_delta = 0x3000 \<rparr> 0) = 1"
    using w by simp
  have m1: "fst (more_space_call id chunk_memory
                   \<lparr> quic_next = 0x40, quic_address_delta = 0x3000 \<rparr> 1) = 0"
    using w [THEN conjunct2, THEN conjunct2, THEN conjunct1, THEN spec, of 0]
    by (simp only: One_nat_def fst_conv)
  have "\<exists>rest. quic_read_words id chunk_memory 3 (quic_input chunk_memory 0x3000 0x2000)
                 = Inr (take (4 * 3) ([1, 2, 3, 4, 5, 6, 7, 8] @ [9, 10, 11, 12]), rest)"
    using w by blast
  then have r3: "\<exists>rest. quic_read_words id chunk_memory 3 (quic_input chunk_memory 0x3000 0x2000)
                 = Inr ([1, 2, 3, 4, 5, 6, 7, 8, 9, 10, 11, 12], rest)"
    by simp
  have r4: "quic_read_words id chunk_memory 4 (quic_input chunk_memory 0x3000 0x2000)
              = Inl (CANVAS_ERROR ''quic error'')"
    using w by simp
  show ?thesis using c0 c1 a1 l0 l1 m0 m1 r3 r4 by blast
qed

text \<open>
  Claim C10. Take a mask request with \<^verbatim>\<open>MASK_INVERS\<close> whose descriptor is a bitmap image
  with \<^verbatim>\<open>IMAGE_CACHE_ME\<close>, the bitmap 1 bit deep and well formed. Then \<^verbatim>\<open>canvas_get_mask\<close>
  puts under the descriptor's id the surface object built by \<^verbatim>\<open>canvas_get_bitmap_mask\<close>
  without inversion; the surface it returns is a second object, the \<^verbatim>\<open>canvas_A1_invers\<close>
  of the first, attached to the first as its user data. A later request for that id from
  the cache gets the first object with its uninverted pixels when it asks for no
  inversion, and the attached inverse when it asks for one.
\<close>

theorem canvas_get_mask_caches_plain:
  assumes nz: "mask_bitmap qmask \<noteq> 0"
    and ni: "MASK_INVERS \<in> mask_flags qmask"
    and img: "images (GET_ADDRESS (mask_bitmap qmask)) = bitmap_image"
    and ty: "descriptor_type (image_descriptor bitmap_image) = IMAGE_TYPE_BITMAP"
    and cm: "IMAGE_CACHE_ME \<in> descriptor_flags (image_descriptor bitmap_image)"
    and fmt: "bitmap_format (image_bitmap bitmap_image) = BITMAP_FMT_1BIT_LE
              \<or> bitmap_format (image_bitmap bitmap_image) = BITMAP_FMT_1BIT_BE"
    and st: "bitmap_stride (image_bitmap bitmap_image) \<noteq> 0"
    and sz: "unat (bitmap_y (image_bitmap bitmap_image)) * unat (bitmap_stride (image_bitmap bitmap_image))
               < 2 ^ 31"
    and xs: "unat (bitmap_x (image_bitmap bitmap_image)) < 2 ^ 31 - 8"
    and td: "BITMAP_TOP_DOWN \<in> bitmap_flags (image_bitmap bitmap_image)
             \<or> bitmap_y (image_bitmap bitmap_image) \<noteq> 0"
  shows "\<exists>plain inverse h'.
           canvas_get_bitmap_mask (image_bitmap bitmap_image) False = Some (Inr plain)
         \<and> canvas_A1_invers plain = Some (Inr inverse)
         \<and> canvas_get_mask GET_ADDRESS images h qmask
             = Some (Inr (Some (Suc (next_surface h)), h'))
         \<and> bits_cache h' (descriptor_id (image_descriptor bitmap_image)) = Some (next_surface h)
         \<and> surfaces h' (next_surface h)
             = Some (plain\<lparr> surface_user_data := Some (Suc (next_surface h)) \<rparr>)
         \<and> surfaces h' (Suc (next_surface h)) = Some (inverse\<lparr> surface_ref_count := 2 \<rparr>)
         \<and> (\<forall>GET_ADDRESS' images' qmask'.
               mask_bitmap qmask' \<noteq> 0
               \<and> image_descriptor (images' (GET_ADDRESS' (mask_bitmap qmask')))
                   = \<lparr> descriptor_id = descriptor_id (image_descriptor bitmap_image),
                       descriptor_type = IMAGE_TYPE_FROM_CACHE, descriptor_flags = {} \<rparr>
               \<longrightarrow> (\<exists>p h''. canvas_get_mask GET_ADDRESS' images' h' qmask'
                              = Some (Inr (Some p, h''))
                      \<and> p = (if MASK_INVERS \<in> mask_flags qmask' then Suc (next_surface h)
                             else next_surface h)
                      \<and> map_option surface_data (surfaces h'' p)
                          = Some (if MASK_INVERS \<in> mask_flags qmask' then surface_data inverse
                                  else surface_data plain)))"
proof -
  let ?b = "image_bitmap bitmap_image"
  let ?n = "next_surface h"
  let ?id = "descriptor_id (image_descriptor bitmap_image)"
  from canvas_get_bitmap_mask_rows [OF fmt st sz xs td, of False]
  obtain plain where p: "canvas_get_bitmap_mask ?b False = Some (Inr plain)"
    and pw: "cairo_image_surface plain" and pf: "surface_format plain = CAIRO_FORMAT_A1"
    by blast
  from canvas_get_bitmap_mask_fresh [OF p]
  have pu: "surface_user_data plain = None" and pr: "surface_ref_count plain = 1" by simp_all
  from canvas_A1_invers_rows [OF pw pf]
  obtain inverse where i: "canvas_A1_invers plain = Some (Inr inverse)"
    and iw: "cairo_image_surface inverse"
    by blast
  from canvas_A1_invers_fresh [OF i]
  have iu: "surface_user_data inverse = None" and ir: "surface_ref_count inverse = 1"
    by simp_all
  have iss: "surface_status inverse = CAIRO_STATUS_SUCCESS"
    using iw by (simp add: cairo_image_surface_def)
  define h1 where "h1 = snd (new_surface plain h)"
  define h2 where "h2 = bits_cache_put h1 ?id ?n"
  have h2: "surfaces h2 = (surfaces h)(?n \<mapsto> plain\<lparr> surface_ref_count := 2 \<rparr>)"
    "next_surface h2 = Suc ?n" "bits_cache h2 = (bits_cache h)(?id \<mapsto> ?n)"
    by (simp_all add: h2_def h1_def new_surface_def bits_cache_put_def
          cairo_surface_reference_def pr numeral_2_eq_2)
  define h3 where "h3 = snd (new_surface inverse h2)"
  define h4 where "h4 = inverse_attach h3 ?n (Suc ?n)"
  define h' where "h' = cairo_surface_destroy h4 ?n"
  have c: "inverse_compute h2 ?n = Some (Inr (Suc ?n, h3))"
    by (simp add: inverse_compute_def h2 pf canvas_A1_invers_ref_count i iss h3_def
          new_surface_def numeral_2_eq_2)
  have h3: "surfaces h3 = (surfaces h)(?n \<mapsto> plain\<lparr> surface_ref_count := 2 \<rparr>,
                                       Suc ?n \<mapsto> inverse)"
    "bits_cache h3 = (bits_cache h)(?id \<mapsto> ?n)"
    by (simp_all add: h3_def new_surface_def h2 numeral_2_eq_2)
  have pe: "plain\<lparr> surface_user_data := u, surface_ref_count := Suc 0 \<rparr>
              = plain\<lparr> surface_user_data := u \<rparr>" for u
    using pr by (cases plain) simp
  have h4: "surfaces h4 ?n
              = Some (plain\<lparr> surface_ref_count := 2, surface_user_data := Some (Suc ?n) \<rparr>)"
    "surfaces h4 (Suc ?n) = Some (inverse\<lparr> surface_ref_count := 2 \<rparr>)"
    "bits_cache h4 = (bits_cache h)(?id \<mapsto> ?n)"
    by (simp_all add: h4_def inverse_attach_def cairo_surface_get_user_data_def h3 pu
          cairo_surface_set_user_data_def cairo_surface_reference_def ir numeral_2_eq_2)
  have h': "surfaces h' ?n = Some (plain\<lparr> surface_user_data := Some (Suc ?n) \<rparr>)"
    "surfaces h' (Suc ?n) = Some (inverse\<lparr> surface_ref_count := 2 \<rparr>)"
    "bits_cache h' = (bits_cache h)(?id \<mapsto> ?n)"
    by (simp_all add: h'_def cairo_surface_destroy_def surface_unreference_def h4
          numeral_2_eq_2 pe)
  have hd: "canvas_handle_inverse_user_data h2 ?n = Some (Inr (Suc ?n, h4))"
    by (simp add: canvas_handle_inverse_user_data_def cairo_surface_get_user_data_def h2 pu c
          h4_def numeral_2_eq_2)
  have run: "canvas_get_mask GET_ADDRESS images h qmask = Some (Inr (Some (Suc ?n), h'))"
    using nz ni cm
    by (simp add: canvas_get_mask_def img ty Let_def p new_surface_def hd
          h2_def [unfolded h1_def new_surface_def, simplified, symmetric] h'_def)
  have later: "\<exists>p h''. canvas_get_mask GET_ADDRESS' images' h' qmask' = Some (Inr (Some p, h''))
                 \<and> p = (if MASK_INVERS \<in> mask_flags qmask' then Suc ?n else ?n)
                 \<and> map_option surface_data (surfaces h'' p)
                     = Some (if MASK_INVERS \<in> mask_flags qmask' then surface_data inverse
                             else surface_data plain)"
    if nz': "mask_bitmap qmask' \<noteq> 0"
      and d: "image_descriptor (images' (GET_ADDRESS' (mask_bitmap qmask')))
                = \<lparr> descriptor_id = ?id, descriptor_type = IMAGE_TYPE_FROM_CACHE,
                    descriptor_flags = {} \<rparr>"
    for GET_ADDRESS' images' qmask'
    using nz' pr
    by (simp add: canvas_get_mask_def d Let_def bits_cache_get_def h'
          cairo_surface_reference_def canvas_handle_inverse_user_data_def
          cairo_surface_get_user_data_def cairo_surface_destroy_def surface_unreference_def
          numeral_2_eq_2)
  show ?thesis
    apply (rule exI [of _ plain], rule exI [of _ inverse], rule exI [of _ h'])
    using p i run h' later by simp
qed

theorem canvas_get_mask_caches_plain_witness:
  "mask_bitmap qmask_invers \<noteq> 0 \<and> MASK_INVERS \<in> mask_flags qmask_invers
   \<and> wire_images (id (mask_bitmap qmask_invers)) = bitmap_image_9x2
   \<and> descriptor_type (image_descriptor bitmap_image_9x2) = IMAGE_TYPE_BITMAP
   \<and> IMAGE_CACHE_ME \<in> descriptor_flags (image_descriptor bitmap_image_9x2)
   \<and> bitmap_format (image_bitmap bitmap_image_9x2) = BITMAP_FMT_1BIT_BE
   \<and> bitmap_stride (image_bitmap bitmap_image_9x2) \<noteq> 0
   \<and> unat (bitmap_y (image_bitmap bitmap_image_9x2))
         * unat (bitmap_stride (image_bitmap bitmap_image_9x2)) < 2 ^ 31
   \<and> unat (bitmap_x (image_bitmap bitmap_image_9x2)) < 2 ^ 31 - 8
   \<and> bitmap_y (image_bitmap bitmap_image_9x2) \<noteq> 0
   \<and> mask_bitmap qmask_plain \<noteq> 0 \<and> MASK_INVERS \<notin> mask_flags qmask_plain
   \<and> image_descriptor (wire_images (id (mask_bitmap qmask_plain)))
       = \<lparr> descriptor_id = descriptor_id (image_descriptor bitmap_image_9x2),
           descriptor_type = IMAGE_TYPE_FROM_CACHE, descriptor_flags = {} \<rparr>
   \<and> (\<exists>plain inverse h' h''.
          canvas_get_bitmap_mask bitmap_1bpp_9x2 False = Some (Inr plain)
        \<and> canvas_A1_invers plain = Some (Inr inverse)
        \<and> canvas_get_mask id wire_images heap_empty qmask_invers = Some (Inr (Some 2, h'))
        \<and> bits_cache h' 7 = Some 1
        \<and> map_option surface_data (surfaces h' 1) = Some (surface_data plain)
        \<and> map_option surface_data (surfaces h' 2) = Some (surface_data inverse)
        \<and> canvas_get_mask id wire_images h' qmask_plain = Some (Inr (Some 1, h''))
        \<and> map_option surface_data (surfaces h'' 1) = Some (surface_data plain))"
proof -
  have nz: "mask_bitmap qmask_invers \<noteq> 0" and ni: "MASK_INVERS \<in> mask_flags qmask_invers"
    and img: "wire_images (id (mask_bitmap qmask_invers)) = bitmap_image_9x2"
    by (simp_all add: qmask_invers_def wire_images_def)
  have ty: "descriptor_type (image_descriptor bitmap_image_9x2) = IMAGE_TYPE_BITMAP"
    and cm: "IMAGE_CACHE_ME \<in> descriptor_flags (image_descriptor bitmap_image_9x2)"
    and be: "bitmap_format (image_bitmap bitmap_image_9x2) = BITMAP_FMT_1BIT_BE"
    and st: "bitmap_stride (image_bitmap bitmap_image_9x2) \<noteq> 0"
    and sz: "unat (bitmap_y (image_bitmap bitmap_image_9x2))
               * unat (bitmap_stride (image_bitmap bitmap_image_9x2)) < 2 ^ 31"
    and xs: "unat (bitmap_x (image_bitmap bitmap_image_9x2)) < 2 ^ 31 - 8"
    and y0: "bitmap_y (image_bitmap bitmap_image_9x2) \<noteq> 0"
    and b: "image_bitmap bitmap_image_9x2 = bitmap_1bpp_9x2"
    and i7: "descriptor_id (image_descriptor bitmap_image_9x2) = 7"
    by (simp_all add: bitmap_image_9x2_def bitmap_1bpp_9x2_def)
  have nz': "mask_bitmap qmask_plain \<noteq> 0" and ni': "MASK_INVERS \<notin> mask_flags qmask_plain"
    and d': "image_descriptor (wire_images (id (mask_bitmap qmask_plain)))
               = \<lparr> descriptor_id = descriptor_id (image_descriptor bitmap_image_9x2),
                   descriptor_type = IMAGE_TYPE_FROM_CACHE, descriptor_flags = {} \<rparr>"
    by (simp_all add: qmask_plain_def wire_images_def image_from_cache_def bitmap_image_9x2_def)
  have fmt: "bitmap_format (image_bitmap bitmap_image_9x2) = BITMAP_FMT_1BIT_LE
             \<or> bitmap_format (image_bitmap bitmap_image_9x2) = BITMAP_FMT_1BIT_BE"
    and td: "BITMAP_TOP_DOWN \<in> bitmap_flags (image_bitmap bitmap_image_9x2)
             \<or> bitmap_y (image_bitmap bitmap_image_9x2) \<noteq> 0"
    using be y0 by simp_all
  have n: "next_surface heap_empty = 1" by (simp add: heap_empty_def)
  note w = canvas_get_mask_caches_plain
    [where GET_ADDRESS = id and images = wire_images and qmask = qmask_invers
       and bitmap_image = bitmap_image_9x2 and h = heap_empty,
     OF nz ni img ty cm fmt st sz xs td, unfolded b i7 n]
  from w obtain plain inverse h'
    where p: "canvas_get_bitmap_mask bitmap_1bpp_9x2 False = Some (Inr plain)"
      and i: "canvas_A1_invers plain = Some (Inr inverse)"
      and r: "canvas_get_mask id wire_images heap_empty qmask_invers
                = Some (Inr (Some (Suc 1), h'))"
      and c: "bits_cache h' 7 = Some 1"
      and s1: "surfaces h' 1 = Some (plain\<lparr> surface_user_data := Some (Suc 1) \<rparr>)"
      and s2: "surfaces h' (Suc 1) = Some (inverse\<lparr> surface_ref_count := 2 \<rparr>)"
      and l: "\<forall>GET_ADDRESS' images' qmask'.
               mask_bitmap qmask' \<noteq> 0
               \<and> image_descriptor (images' (GET_ADDRESS' (mask_bitmap qmask')))
                   = \<lparr> descriptor_id = 7,
                       descriptor_type = IMAGE_TYPE_FROM_CACHE, descriptor_flags = {} \<rparr>
               \<longrightarrow> (\<exists>p h''. canvas_get_mask GET_ADDRESS' images' h' qmask'
                              = Some (Inr (Some p, h''))
                      \<and> p = (if MASK_INVERS \<in> mask_flags qmask' then Suc 1 else 1)
                      \<and> map_option surface_data (surfaces h'' p)
                          = Some (if MASK_INVERS \<in> mask_flags qmask' then surface_data inverse
                                  else surface_data plain))"
    by (elim exE conjE)
  have two: "Suc 1 = 2" by simp
  from l [THEN spec [where x = id], THEN spec [where x = wire_images],
          THEN spec [where x = qmask_plain]] nz' d' ni' i7
  obtain h'' where g1: "canvas_get_mask id wire_images h' qmask_plain = Some (Inr (Some 1, h''))"
    and g2: "map_option surface_data (surfaces h'' 1) = Some (surface_data plain)"
    by auto
  have d1: "map_option surface_data (surfaces h' 1) = Some (surface_data plain)"
    unfolding s1 by simp
  have d2: "map_option surface_data (surfaces h' 2) = Some (surface_data inverse)"
    unfolding s2 [unfolded two] by simp
  from p i r [unfolded two] c d1 d2 g1 g2
  have "canvas_get_bitmap_mask bitmap_1bpp_9x2 False = Some (Inr plain)
        \<and> canvas_A1_invers plain = Some (Inr inverse)
        \<and> canvas_get_mask id wire_images heap_empty qmask_invers = Some (Inr (Some 2, h'))
        \<and> bits_cache h' 7 = Some 1
        \<and> map_option surface_data (surfaces h' 1) = Some (surface_data plain)
        \<and> map_option surface_data (surfaces h' 2) = Some (surface_data inverse)
        \<and> canvas_get_mask id wire_images h' qmask_plain = Some (Inr (Some 1, h''))
        \<and> map_option surface_data (surfaces h'' 1) = Some (surface_data plain)"
    by blast
  then have "\<exists>plain inverse h' h''.
          canvas_get_bitmap_mask bitmap_1bpp_9x2 False = Some (Inr plain)
        \<and> canvas_A1_invers plain = Some (Inr inverse)
        \<and> canvas_get_mask id wire_images heap_empty qmask_invers = Some (Inr (Some 2, h'))
        \<and> bits_cache h' 7 = Some 1
        \<and> map_option surface_data (surfaces h' 1) = Some (surface_data plain)
        \<and> map_option surface_data (surfaces h' 2) = Some (surface_data inverse)
        \<and> canvas_get_mask id wire_images h' qmask_plain = Some (Inr (Some 1, h''))
        \<and> map_option surface_data (surfaces h'' 1) = Some (surface_data plain)"
    by blast
  then show ?thesis using nz ni img ty cm be st sz xs y0 nz' ni' d' by blast
qed




end
